theory Spec2Isabelle
  imports Main "HOL-Library.Word" "HOL-Library.Sublist"
begin

section \<open>The DYLLABLE packet codec (package network, packet.go)\<close>

text \<open>
  Go strings and byte slices are both sequences of bytes: they are modelled as
  \<open>string\<close> (a list of 8-bit characters). A \<open>*bytes.Buffer\<close> is modelled by the
  bytes not yet read; every function that reads from it returns the bytes left.
\<close>

subsection \<open>Protocol constants\<close>

abbreviation CRLF :: string where
  "CRLF \<equiv> [CHR 0x0D, CHR 0x0A]"

definition preffix :: string where
  "preffix = ''DYLLABLE-''"

definition actionPreffix :: string where
  "actionPreffix = preffix @ ''ACTION-''"

definition discoveryIdentifier :: string where
  "discoveryIdentifier = preffix @ ''DISCOVERY''"

definition headerSeparator :: string where
  "headerSeparator = CRLF"

definition endPacket :: string where
  "endPacket = CRLF"

definition requestDiscoveryType :: string where
  "requestDiscoveryType = ''DISCOVERY''"

definition responseDiscoveryType :: string where
  "responseDiscoveryType = ''RUNNING-APP''"

definition requestActionIdentifier :: string where
  "requestActionIdentifier = actionPreffix @ ''REQUEST''"

definition responseActionIdentifier :: string where
  "responseActionIdentifier = actionPreffix @ ''RESPONSE''"

subsection \<open>Errors\<close>

text \<open>
  Go's \<open>error\<close> values. \<open>EOF\<close> is the sentinel \<open>io.EOF\<close>; \<open>ErrorString\<close> is what
  \<open>errors.New\<close> builds. The other constructors are the error values of the libraries the
  codec calls (strconv, net, github.com/google/uuid, encoding/json). \<open>Panic\<close> stands for
  a run-time panic (an index out of range), which is not an error value in Go; it can
  only arise in \<open>readUntil\<close> for a delimiter shorter than two bytes.
\<close>

datatype strconv_error = ErrSyntax | ErrRange

datatype json_error =
    SyntaxError string
  | UnmarshalTypeError string
  | UnsupportedTypeError string
  | UnsupportedValueError string

datatype error =
    EOF
  | ErrorString string
  | NumError string string strconv_error
  | AddrError string string
  | InvalidLengthError nat
  | InvalidURNPrefix string
  | JSONError json_error
  | Panic string

subsection \<open>The frame lexer: readUntil\<close>

text \<open>
  The loop of \<open>readUntil\<close>. \<open>read\<close> is the sliding window (\<open>len(delim)\<close> bytes, zero at
  first), \<open>out\<close> the bytes consumed so far. \<open>buffer.ReadByte()\<close> on an empty buffer
  returns \<open>io.EOF\<close>, which ends the loop. The window is updated with
  \<open>read[0] = read[1]; read[1] = readByte\<close>, which panics when the window has fewer
  than two bytes.
\<close>

fun readUntil_loop :: "string \<Rightarrow> string \<Rightarrow> string \<Rightarrow> string \<Rightarrow> string \<times> error option \<times> string" where
  "readUntil_loop delim read out [] =
     (if read = delim then (out, None, [])
      else if length read < 2 then (out, Some (Panic ''index out of range''), [])
      else (out, Some EOF, []))"
| "readUntil_loop delim read out (readByte # buffer) =
     (if read = delim then (out, None, readByte # buffer)
      else if length read < 2 then (out @ [readByte], Some (Panic ''index out of range''), buffer)
      else readUntil_loop delim (read[0 := read ! 1, 1 := readByte]) (out @ [readByte]) buffer)"

definition readUntil :: "string \<Rightarrow> string \<Rightarrow> string \<times> error option \<times> string" where
  "readUntil buffer delim =
     readUntil_loop delim (replicate (length delim) (CHR 0x00)) [] buffer"

lemma readUntil_loop_found [simp]:
  "readUntil_loop delim delim out buffer = (out, None, buffer)"
  by (cases buffer) simp_all

subsection \<open>Library functions: strings, strconv, fmt\<close>

text \<open>\<open>strings.TrimRight(s, cutset)\<close>: \<open>s\<close> without its trailing bytes that are in the cutset.\<close>

definition TrimRight :: "string \<Rightarrow> string \<Rightarrow> string" where
  "TrimRight s cutset = rev (dropWhile (\<lambda>c. c \<in> set cutset) (rev s))"

text \<open>\<open>strings.Index(s, sep)\<close>: the index of the first occurrence of \<open>sep\<close>; \<open>None\<close> is Go's -1.\<close>

fun Index :: "string \<Rightarrow> string \<Rightarrow> nat option" where
  "Index [] sep = (if sep = [] then Some 0 else None)"
| "Index (c # cs) sep =
     (if take (length sep) (c # cs) = sep then Some 0 else map_option Suc (Index cs sep))"

text \<open>\<open>strings.LastIndexByte(s, c)\<close>, which package net calls \<open>last\<close>.\<close>

definition LastIndexByte :: "string \<Rightarrow> char \<Rightarrow> nat option" where
  "LastIndexByte s c =
     (case Index (rev s) [c] of None \<Rightarrow> None | Some m \<Rightarrow> Some (length s - 1 - m))"

text \<open>
  \<open>strings.SplitN(s, sep, n)\<close> for a non-empty separator: at most \<open>n\<close> substrings, the
  last one the unsplit remainder. \<open>genSplit s sep k\<close> splits at most \<open>k\<close> times.
\<close>

fun genSplit :: "string \<Rightarrow> string \<Rightarrow> nat \<Rightarrow> string list" where
  "genSplit s sep 0 = [s]"
| "genSplit s sep (Suc k) =
     (case Index s sep of
        None \<Rightarrow> [s]
      | Some m \<Rightarrow> take m s # genSplit (drop (m + length sep) s) sep k)"

definition SplitN :: "string \<Rightarrow> string \<Rightarrow> nat \<Rightarrow> string list" where
  "SplitN s sep n = (if n = 0 then [] else genSplit s sep (n - 1))"

text \<open>
  \<open>strconv.ParseUint(s, 10, bitSize)\<close>: decimal digits only, no sign. The accumulator
  is a uint64: \<open>cutoff\<close> is \<open>maxUint64 / 10 + 1\<close>, and the addition is taken modulo
  \<open>2 ^ 64\<close> and checked as the library does.
\<close>

definition isDigit :: "char \<Rightarrow> bool" where
  "isDigit c \<longleftrightarrow> (48::nat) \<le> of_char c \<and> (of_char c :: nat) \<le> 57"

definition cutoff :: nat where
  "cutoff = 1844674407370955162"

fun ParseUint_loop :: "nat \<Rightarrow> nat \<Rightarrow> string \<Rightarrow> strconv_error + nat" where
  "ParseUint_loop maxVal n [] = Inr n"
| "ParseUint_loop maxVal n (c # cs) =
     (if \<not> isDigit c then Inl ErrSyntax
      else if n \<ge> cutoff then Inl ErrRange
      else let n' = n * 10; n1 = (n' + (of_char c - 48)) mod 18446744073709551616
           in if n1 < n' \<or> n1 > maxVal then Inl ErrRange
              else ParseUint_loop maxVal n1 cs)"

definition ParseUint :: "string \<Rightarrow> nat \<Rightarrow> error + nat" where
  "ParseUint s bitSize =
     (if s = [] then Inl (NumError ''ParseUint'' s ErrSyntax)
      else case ParseUint_loop (2 ^ bitSize - 1) 0 s of
             Inl e \<Rightarrow> Inl (NumError ''ParseUint'' s e)
           | Inr n \<Rightarrow> Inr n)"

text \<open>The verb \<open>%d\<close> of \<open>fmt.Sprintf\<close> on an unsigned integer: its decimal digits.\<close>

definition digitChar :: "nat \<Rightarrow> char" where
  "digitChar d = ''0123456789'' ! d"

function FormatUint :: "nat \<Rightarrow> string" where
  "FormatUint n =
     (if n < 10 then [digitChar n]
      else FormatUint (n div 10) @ [digitChar (n mod 10)])"
  by pat_completeness auto
termination
  by (relation "measure id") auto

declare FormatUint.simps [simp del]

subsection \<open>Library functions: package net\<close>

text \<open>
  \<open>net.IP\<close> is a byte slice. \<open>net.IPv4(a, b, c, d)\<close> is the 16-byte form of an IPv4
  address, which is also what \<open>net.ParseIP\<close> returns for dotted-decimal text.
\<close>

type_synonym byte = "8 word"
type_synonym IP = "byte list"

definition IPv4len :: nat where "IPv4len = 4"
definition IPv6len :: nat where "IPv6len = 16"

definition v4InV6Prefix :: "byte list" where
  "v4InV6Prefix = [0, 0, 0, 0, 0, 0, 0, 0, 0, 0, 0xff, 0xff]"

definition IPv4 :: "byte \<Rightarrow> byte \<Rightarrow> byte \<Rightarrow> byte \<Rightarrow> IP" where
  "IPv4 a b c d = v4InV6Prefix @ [a, b, c, d]"

text \<open>
  \<open>net.SplitHostPort\<close>: the port follows the last colon; a host in square brackets may
  hold colons, a bare host may not.
\<close>

definition addrErr :: "string \<Rightarrow> string \<Rightarrow> error + string \<times> string" where
  "addrErr addr why = Inl (AddrError why addr)"

definition SplitHostPort :: "string \<Rightarrow> error + string \<times> string" where
  "SplitHostPort hostport =
     (let missingPort = ''missing port in address'';
          tooManyColons = ''too many colons in address'';
          finish = (\<lambda>host j k i.
            if Index (drop j hostport) ''['' \<noteq> None
              then addrErr hostport ''unexpected '[' in address''
            else if Index (drop k hostport) '']'' \<noteq> None
              then addrErr hostport ''unexpected ']' in address''
            else Inr (host, drop (i + 1) hostport))
      in case LastIndexByte hostport (CHR '':'') of
           None \<Rightarrow> addrErr hostport missingPort
         | Some i \<Rightarrow>
             if hostport ! 0 = CHR ''[''
             then (case Index hostport '']'' of
                     None \<Rightarrow> addrErr hostport ''missing ']' in address''
                   | Some end \<Rightarrow>
                       if end + 1 = length hostport then addrErr hostport missingPort
                       else if end + 1 = i then finish (take (end - 1) (drop 1 hostport)) 1 (end + 1) i
                       else if hostport ! (end + 1) = CHR '':'' then addrErr hostport tooManyColons
                       else addrErr hostport missingPort)
             else (let host = take i hostport
                   in if Index host '':'' \<noteq> None then addrErr hostport tooManyColons
                      else finish host 0 0 i))"

text \<open>
  \<open>net.ParseIP\<close> (net/ip.go of Go 1.17): \<open>dtoi\<close> and \<open>xtoi\<close> read a decimal and a
  hexadecimal number and return the number, the count of characters consumed and
  whether they succeeded.
\<close>

definition big :: nat where
  "big = 0xFFFFFF"

fun dtoi_loop :: "nat \<Rightarrow> nat \<Rightarrow> string \<Rightarrow> nat \<times> nat \<times> bool" where
  "dtoi_loop n i [] = (if i = 0 then (0, 0, False) else (n, i, True))"
| "dtoi_loop n i (c # cs) =
     (if isDigit c
      then (let n' = n * 10 + (of_char c - 48)
            in if n' \<ge> big then (big, i, False) else dtoi_loop n' (i + 1) cs)
      else if i = 0 then (0, 0, False) else (n, i, True))"

definition dtoi :: "string \<Rightarrow> nat \<times> nat \<times> bool" where
  "dtoi s = dtoi_loop 0 0 s"

definition hexValue :: "char \<Rightarrow> nat option" where
  "hexValue c =
     (let v = (of_char c :: nat)
      in if 48 \<le> v \<and> v \<le> 57 then Some (v - 48)
         else if 97 \<le> v \<and> v \<le> 102 then Some (v - 97 + 10)
         else if 65 \<le> v \<and> v \<le> 70 then Some (v - 65 + 10)
         else None)"

fun xtoi_loop :: "nat \<Rightarrow> nat \<Rightarrow> string \<Rightarrow> nat \<times> nat \<times> bool" where
  "xtoi_loop n i [] = (if i = 0 then (0, i, False) else (n, i, True))"
| "xtoi_loop n i (c # cs) =
     (case hexValue c of
        None \<Rightarrow> if i = 0 then (0, i, False) else (n, i, True)
      | Some d \<Rightarrow>
          (let n' = n * 16 + d
           in if n' \<ge> big then (0, i, False) else xtoi_loop n' (i + 1) cs))"

definition xtoi :: "string \<Rightarrow> nat \<times> nat \<times> bool" where
  "xtoi s = xtoi_loop 0 0 s"

text \<open>The loop of \<open>parseIPv4\<close>: \<open>p\<close> holds the four octets, \<open>i\<close> counts them.\<close>

function parseIPv4_loop :: "nat \<Rightarrow> string \<Rightarrow> byte list \<Rightarrow> (byte list \<times> string) option" where
  "parseIPv4_loop i s p =
     (if \<not> i < IPv4len then Some (p, s)
      else if s = [] then None
      else if i > 0 \<and> s ! 0 \<noteq> CHR ''.'' then None
      else let s = (if i > 0 then drop 1 s else s)
           in case dtoi s of (n, c, ok) \<Rightarrow>
                if \<not> ok \<or> n > 0xFF then None
                else if c > 1 \<and> s ! 0 = CHR ''0'' then None
                else parseIPv4_loop (i + 1) (drop c s) (p[i := word_of_nat (n mod 256)]))"
  by pat_completeness auto
termination
  by (relation "measure (\<lambda>(i, s, p). IPv4len - i)") (auto simp: IPv4len_def)

declare parseIPv4_loop.simps [simp del]

definition parseIPv4 :: "string \<Rightarrow> IP option" where
  "parseIPv4 s =
     (case parseIPv4_loop 0 s [0, 0, 0, 0] of
        None \<Rightarrow> None
      | Some (p, s) \<Rightarrow> if s \<noteq> [] then None else Some (IPv4 (p ! 0) (p ! 1) (p ! 2) (p ! 3)))"

text \<open>
  The loop of \<open>parseIPv6\<close>: \<open>ip\<close> is the address being filled, \<open>i\<close> the next position,
  \<open>ellipsis\<close> the position of \<open>::\<close> (\<open>None\<close> is Go's -1). It returns the state at the
  loop's exit, or \<open>None\<close> where the library returns nil.
\<close>

function parseIPv6_loop :: "IP \<Rightarrow> nat \<Rightarrow> string \<Rightarrow> nat option \<Rightarrow> (IP \<times> nat \<times> string \<times> nat option) option" where
  "parseIPv6_loop ip i s ellipsis =
     (if \<not> i < IPv6len then Some (ip, i, s, ellipsis)
      else case xtoi s of (n, c, ok) \<Rightarrow>
        if \<not> ok \<or> n > 0xFFFF then None
        else if c < length s \<and> s ! c = CHR ''.''
        then (if ellipsis = None \<and> i \<noteq> IPv6len - IPv4len then None
              else if i + IPv4len > IPv6len then None
              else case parseIPv4 s of
                     None \<Rightarrow> None
                   | Some ip4 \<Rightarrow>
                       Some (ip[i := ip4 ! 12, i + 1 := ip4 ! 13, i + 2 := ip4 ! 14, i + 3 := ip4 ! 15],
                             i + IPv4len, [], ellipsis))
        else let ip = ip[i := word_of_nat (n div 256 mod 256), i + 1 := word_of_nat (n mod 256)];
                 i = i + 2;
                 s = drop c s
             in if s = [] then Some (ip, i, s, ellipsis)
                else if s ! 0 \<noteq> CHR '':'' \<or> length s = 1 then None
                else let s = drop 1 s
                     in if s ! 0 = CHR '':''
                        then (if ellipsis \<noteq> None then None
                              else let s = drop 1 s
                                   in if s = [] then Some (ip, i, s, Some i)
                                      else parseIPv6_loop ip i s (Some i))
                        else parseIPv6_loop ip i s ellipsis)"
  by pat_completeness auto
termination
  by (relation "measure (\<lambda>(ip, i, s, ellipsis). IPv6len - i)") (auto simp: IPv6len_def)

declare parseIPv6_loop.simps [simp del]

definition parseIPv6 :: "string \<Rightarrow> IP option" where
  "parseIPv6 s0 =
     (let ip = [0, 0, 0, 0, 0, 0, 0, 0, 0, 0, 0, 0, 0, 0, 0, 0];
          leading = (length s0 \<ge> 2 \<and> s0 ! 0 = CHR '':'' \<and> s0 ! 1 = CHR '':'');
          ellipsis = (if leading then Some 0 else None);
          s = (if leading then drop 2 s0 else s0)
      in if leading \<and> s = [] then Some ip
         else case parseIPv6_loop ip 0 s ellipsis of
                None \<Rightarrow> None
              | Some (ip, i, s, ellipsis) \<Rightarrow>
                  if s \<noteq> [] then None
                  else if i < IPv6len
                  then (case ellipsis of
                          None \<Rightarrow> None
                        | Some e \<Rightarrow>
                            Some (take e ip @ replicate (IPv6len - i) 0 @ take (i - e) (drop e ip)))
                  else if ellipsis \<noteq> None then None
                  else Some ip)"

fun ParseIP_scan :: "string \<Rightarrow> string \<Rightarrow> IP option" where
  "ParseIP_scan s [] = None"
| "ParseIP_scan s (c # cs) =
     (if c = CHR ''.'' then parseIPv4 s
      else if c = CHR '':'' then parseIPv6 s
      else ParseIP_scan s cs)"

definition ParseIP :: "string \<Rightarrow> IP option" where
  "ParseIP s = ParseIP_scan s s"

subsection \<open>Library functions: github.com/google/uuid\<close>

text \<open>
  A \<open>uuid.UUID\<close> is an array of 16 bytes. \<open>uuid.Parse\<close> decodes the four textual forms
  the library documents: \<open>xxxxxxxx-xxxx-xxxx-xxxx-xxxxxxxxxxxx\<close>, the same after
  \<open>urn:uuid:\<close>, the same inside one leading and one trailing character (braces), and 32
  hexadecimal digits with no hyphen. \<open>xtob\<close> converts two hexadecimal digits into a byte.
\<close>

type_synonym UUID = "byte list"

definition xtob :: "char \<Rightarrow> char \<Rightarrow> byte option" where
  "xtob x1 x2 =
     (case (hexValue x1, hexValue x2) of
        (Some b1, Some b2) \<Rightarrow> Some (word_of_nat (b1 * 16 + b2))
      | _ \<Rightarrow> None)"

definition toLowerASCII :: "char \<Rightarrow> char" where
  "toLowerASCII c =
     (case Index ''ABCDEFGHIJKLMNOPQRSTUVWXYZ'' [c] of
        None \<Rightarrow> c
      | Some i \<Rightarrow> ''abcdefghijklmnopqrstuvwxyz'' ! i)"

definition EqualFold :: "string \<Rightarrow> string \<Rightarrow> bool" where
  "EqualFold s t \<longleftrightarrow> map toLowerASCII s = map toLowerASCII t"

definition decodeHexPairs :: "string \<Rightarrow> nat list \<Rightarrow> error + UUID" where
  "decodeHexPairs s positions =
     (case those (map (\<lambda>x. xtob (s ! x) (s ! (x + 1))) positions) of
        None \<Rightarrow> Inl (ErrorString ''invalid UUID format'')
      | Some uuid \<Rightarrow> Inr uuid)"

definition parseHyphenated :: "string \<Rightarrow> error + UUID" where
  "parseHyphenated s =
     (if s ! 8 \<noteq> CHR ''-'' \<or> s ! 13 \<noteq> CHR ''-'' \<or> s ! 18 \<noteq> CHR ''-'' \<or> s ! 23 \<noteq> CHR ''-''
      then Inl (ErrorString ''invalid UUID format'')
      else decodeHexPairs s [0, 2, 4, 6, 9, 11, 14, 16, 19, 21, 24, 26, 28, 30, 32, 34])"

definition uuid_Parse :: "string \<Rightarrow> error + UUID" where
  "uuid_Parse s =
     (if length s = 36 then parseHyphenated s
      else if length s = 36 + 9
      then (if \<not> EqualFold (take 9 s) ''urn:uuid:'' then Inl (InvalidURNPrefix (take 9 s))
            else parseHyphenated (drop 9 s))
      else if length s = 36 + 2 then parseHyphenated (drop 1 s)
      else if length s = 32
      then decodeHexPairs s [0, 2, 4, 6, 8, 10, 12, 14, 16, 18, 20, 22, 24, 26, 28, 30]
      else Inl (InvalidLengthError (length s)))"

text \<open>\<open>UUID.String()\<close>: lower-case hexadecimal digits in groups of 8, 4, 4, 4 and 12.\<close>

definition hexDigit :: "nat \<Rightarrow> char" where
  "hexDigit d = ''0123456789abcdef'' ! d"

definition hex_Encode :: "byte list \<Rightarrow> string" where
  "hex_Encode src = concat (map (\<lambda>b. [hexDigit (unat b div 16), hexDigit (unat b mod 16)]) src)"

definition UUID_String :: "UUID \<Rightarrow> string" where
  "UUID_String uuid =
     hex_Encode (take 4 uuid) @ ''-'' @ hex_Encode (take 2 (drop 4 uuid)) @ ''-''
       @ hex_Encode (take 2 (drop 6 uuid)) @ ''-'' @ hex_Encode (take 2 (drop 8 uuid)) @ ''-''
       @ hex_Encode (drop 10 uuid)"

subsection \<open>Library functions: encoding/json\<close>

text \<open>
  The body of an action packet is a \<open>map[string]interface{}\<close>, which the codec only
  tests against nil and hands to \<open>json.Marshal\<close> and \<open>json.Unmarshal\<close>. A body is
  modelled as \<open>'m option\<close>: \<open>None\<close> is the nil map, \<open>Some m\<close> a map (the empty map too).
  The encoding and decoding of JSON objects, which involves floating-point numbers, is
  not modelled: the encoder \<open>enc\<close> and the decoder \<open>dec\<close> of objects are parameters,
  and every theorem below holds for all of them. What is fixed is what the library does
  with nil: a nil map is encoded as \<open>null\<close>, and the JSON value \<open>null\<close> (surrounded by
  optional white space) is decoded into a map by setting it to nil, with no error.
\<close>

definition isJSONSpace :: "char \<Rightarrow> bool" where
  "isJSONSpace c \<longleftrightarrow> c = CHR '' '' \<or> c = CHR 0x09 \<or> c = CHR 0x0D \<or> c = CHR 0x0A"

definition trimJSONSpace :: "string \<Rightarrow> string" where
  "trimJSONSpace data = rev (dropWhile isJSONSpace (rev (dropWhile isJSONSpace data)))"

definition json_Marshal :: "('m \<Rightarrow> json_error + string) \<Rightarrow> 'm option \<Rightarrow> error + string" where
  "json_Marshal enc v =
     (case v of
        None \<Rightarrow> Inr ''null''
      | Some m \<Rightarrow> (case enc m of Inl e \<Rightarrow> Inl (JSONError e) | Inr text \<Rightarrow> Inr text))"

definition json_Unmarshal :: "(string \<Rightarrow> json_error + 'm) \<Rightarrow> string \<Rightarrow> error + 'm option" where
  "json_Unmarshal dec data =
     (if trimJSONSpace data = ''null'' then Inr None
      else case dec data of Inl e \<Rightarrow> Inl (JSONError e) | Inr m \<Rightarrow> Inr (Some m))"

subsection \<open>Packets\<close>

record DiscoveryPacket =
  Address :: IP
  Port :: "16 word"
  Type :: string

record 'm RequestActionPacket =
  RequestUUID :: UUID
  ActionId :: "8 word"
  Parameters :: "'m option"

record 'm ResponseActionPacket =
  RequestUUID' :: UUID
  Approved :: bool
  Content :: "'m option"

text \<open>The interface \<open>Packet\<close>, with its three implementations.\<close>

datatype 'm Packet =
    Discovery DiscoveryPacket
  | RequestAction "'m RequestActionPacket"
  | ResponseAction "'m ResponseActionPacket"

definition NewRequestDiscoveryPacket :: "IP \<Rightarrow> 16 word \<Rightarrow> DiscoveryPacket" where
  "NewRequestDiscoveryPacket address port =
     \<lparr>Address = address, Port = port, Type = requestDiscoveryType\<rparr>"

definition NewResponseDiscoveryPacket :: "IP \<Rightarrow> 16 word \<Rightarrow> DiscoveryPacket" where
  "NewResponseDiscoveryPacket address port =
     \<lparr>Address = address, Port = port, Type = responseDiscoveryType\<rparr>"

text \<open>
  \<open>NewRequestActionPacket\<close> draws a fresh identifier with \<open>uuid.New()\<close>; the
  identifier drawn is the first argument here.
\<close>

definition NewRequestActionPacket :: "UUID \<Rightarrow> 8 word \<Rightarrow> 'm option \<Rightarrow> 'm RequestActionPacket" where
  "NewRequestActionPacket fresh actionId parameters =
     \<lparr>RequestUUID = fresh, ActionId = actionId, Parameters = parameters\<rparr>"

definition NewResponseActionPacket :: "UUID \<Rightarrow> bool \<Rightarrow> 'm option \<Rightarrow> 'm ResponseActionPacket" where
  "NewResponseActionPacket requestUUID approved content =
     \<lparr>RequestUUID' = requestUUID, Approved = approved, Content = content\<rparr>"

subsection \<open>Serialization\<close>

text \<open>\<open>strings.Join(elems, sep)\<close>.\<close>

fun Join :: "string list \<Rightarrow> string \<Rightarrow> string" where
  "Join [] sep = []"
| "Join [x] sep = x"
| "Join (x # y # ys) sep = x @ sep @ Join (y # ys) sep"

text \<open>
  \<open>IP.String()\<close> (net/ip.go): dotted decimal for an IPv4 address in either length, else
  the groups of an IPv6 address with the longest run of zero groups (two at least)
  written \<open>::\<close>.
\<close>

definition To4 :: "IP \<Rightarrow> IP option" where
  "To4 ip =
     (if length ip = IPv4len then Some ip
      else if length ip = IPv6len \<and> take 10 ip = [0, 0, 0, 0, 0, 0, 0, 0, 0, 0]
              \<and> ip ! 10 = 0xff \<and> ip ! 11 = 0xff
      then Some (drop 12 ip)
      else None)"

function zeroRun_end :: "IP \<Rightarrow> nat \<Rightarrow> nat" where
  "zeroRun_end p j =
     (if j < IPv6len \<and> p ! j = 0 \<and> p ! (j + 1) = 0 then zeroRun_end p (j + 2) else j)"
  by pat_completeness auto
termination
  by (relation "measure (\<lambda>(p, j). IPv6len - j)") (auto simp: IPv6len_def)

declare zeroRun_end.simps [simp del]

function longestZeroRun :: "IP \<Rightarrow> nat \<Rightarrow> int \<Rightarrow> int \<Rightarrow> int \<times> int" where
  "longestZeroRun p i e0 e1 =
     (if \<not> i < IPv6len then (e0, e1)
      else let j = zeroRun_end p i
           in if j > i \<and> int j - int i > e1 - e0
              then longestZeroRun p (j + 2) (int i) (int j)
              else longestZeroRun p (i + 2) e0 e1)"
  by pat_completeness auto
termination
  by (relation "measure (\<lambda>(p, i, e0, e1). IPv6len - i)") (auto simp: IPv6len_def)

declare longestZeroRun.simps [simp del]

text \<open>\<open>appendHex\<close>: the hexadecimal digits of a group, without leading zeros.\<close>

function hexDigits :: "nat \<Rightarrow> string" where
  "hexDigits n = (if n < 16 then [hexDigit n] else hexDigits (n div 16) @ [hexDigit (n mod 16)])"
  by pat_completeness auto
termination
  by (relation "measure id") auto

declare hexDigits.simps [simp del]

definition groups :: "IP \<Rightarrow> nat list" where
  "groups p = map (\<lambda>k. unat (p ! (2 * k)) * 256 + unat (p ! (2 * k + 1))) [0, 1, 2, 3, 4, 5, 6, 7]"

definition joinGroups :: "nat list \<Rightarrow> string" where
  "joinGroups gs = Join (map hexDigits gs) '':''"

definition IP_String :: "IP \<Rightarrow> string" where
  "IP_String ip =
     (if length ip = 0 then ''<nil>''
      else case (case To4 ip of None \<Rightarrow> None | Some p4 \<Rightarrow> if length p4 = IPv4len then Some p4 else None) of
        Some p4 \<Rightarrow> FormatUint (unat (p4 ! 0)) @ ''.'' @ FormatUint (unat (p4 ! 1)) @ ''.''
                    @ FormatUint (unat (p4 ! 2)) @ ''.'' @ FormatUint (unat (p4 ! 3))
      | None \<Rightarrow>
          if length ip \<noteq> IPv6len then ''?'' @ hex_Encode ip
          else (case longestZeroRun ip 0 (- 1) (- 1) of
                  (e0, e1) \<Rightarrow>
                    if e1 - e0 \<le> 2 then joinGroups (groups ip)
                    else joinGroups (take (nat e0 div 2) (groups ip)) @ ''::''
                           @ joinGroups (drop (nat e1 div 2) (groups ip))))"

text \<open>
  \<open>DiscoveryPacket.String()\<close>: the address is formatted by \<open>%s\<close>, that is by
  \<open>IP.String()\<close>, and joined to the port by a colon with no brackets; the error
  returned is always nil.
\<close>

definition DiscoveryPacket_String :: "DiscoveryPacket \<Rightarrow> error + string" where
  "DiscoveryPacket_String packet =
     (let typeHeader = ''TYPE: '' @ Type packet;
          hostHeader = ''HOST: '' @ IP_String (Address packet) @ '':'' @ FormatUint (unat (Port packet));
          headers = [discoveryIdentifier, typeHeader, hostHeader]
      in Inr (Join headers headerSeparator @ headerSeparator @ endPacket))"

definition DiscoveryPacket_Bytes :: "DiscoveryPacket \<Rightarrow> error + string" where
  "DiscoveryPacket_Bytes packet = DiscoveryPacket_String packet"

text \<open>
  \<open>String()\<close> of the two action packets returns \<open>(out, err)\<close>; \<open>Inl err\<close> is the return
  with the error of \<open>json.Marshal\<close> (and the empty string).
\<close>

definition RequestActionPacket_String ::
    "('m \<Rightarrow> json_error + string) \<Rightarrow> 'm RequestActionPacket \<Rightarrow> error + string" where
  "RequestActionPacket_String enc packet =
     (let requestUUIDHeader = ''REQUEST-UUID: '' @ UUID_String (RequestUUID packet);
          actionHeader = ''ACTION-ID: '' @ FormatUint (unat (ActionId packet))
      in case json_Marshal enc (Parameters packet) of
           Inl err \<Rightarrow> Inl err
         | Inr parametersJSON \<Rightarrow>
             (let headers = [requestActionIdentifier, requestUUIDHeader, actionHeader];
                  out = Join headers headerSeparator @ headerSeparator;
                  out = (if Parameters packet \<noteq> None
                         then out @ headerSeparator @ parametersJSON @ headerSeparator
                         else out)
              in Inr (out @ endPacket)))"

definition RequestActionPacket_Bytes ::
    "('m \<Rightarrow> json_error + string) \<Rightarrow> 'm RequestActionPacket \<Rightarrow> error + string" where
  "RequestActionPacket_Bytes enc packet = RequestActionPacket_String enc packet"

definition ResponseActionPacket_String ::
    "('m \<Rightarrow> json_error + string) \<Rightarrow> 'm ResponseActionPacket \<Rightarrow> error + string" where
  "ResponseActionPacket_String enc packet =
     (let requestUUIDHeader = ''REQUEST-UUID: '' @ UUID_String (RequestUUID' packet);
          approved = (if Approved packet then ''True'' else ''False'');
          approvedHeader = ''APPROVED: '' @ approved
      in case json_Marshal enc (Content packet) of
           Inl err \<Rightarrow> Inl err
         | Inr contentJSON \<Rightarrow>
             (let headers = [responseActionIdentifier, requestUUIDHeader, approvedHeader];
                  out = Join headers headerSeparator @ headerSeparator;
                  out = (if Content packet \<noteq> None
                         then out @ headerSeparator @ contentJSON @ headerSeparator
                         else out)
              in Inr (out @ endPacket)))"

definition ResponseActionPacket_Bytes ::
    "('m \<Rightarrow> json_error + string) \<Rightarrow> 'm ResponseActionPacket \<Rightarrow> error + string" where
  "ResponseActionPacket_Bytes enc packet = ResponseActionPacket_String enc packet"

subsection \<open>Parsing\<close>

definition parseHeader :: "string \<Rightarrow> error + string list" where
  "parseHeader raw =
     (let headerValue = SplitN raw '': '' 2
      in if length headerValue = 1 then Inl (ErrorString ''invalid header line'')
         else Inr headerValue)"

lemma readUntil_loop_progress:
  "readUntil_loop delim read out buffer = (out', None, rest) \<Longrightarrow> read \<noteq> delim \<Longrightarrow>
   length rest < length buffer"
proof (induction buffer arbitrary: read out)
  case Nil
  then show ?case by (auto split: if_splits)
next
  case (Cons readByte buffer)
  show ?case
  proof (cases "read[0 := read ! 1, 1 := readByte] = delim")
    case True
    with Cons.prems show ?thesis by (auto split: if_splits)
  next
    case False
    with Cons.prems Cons.IH [of "read[0 := read ! 1, 1 := readByte]" "out @ [readByte]"]
    show ?thesis by (auto split: if_splits)
  qed
qed

lemma readUntil_progress:
  "readUntil buffer headerSeparator = (out, None, rest) \<Longrightarrow> length rest < length buffer"
  using readUntil_loop_progress [of CRLF "[CHR 0x00, CHR 0x00]" "[]" buffer out rest]
  by (simp add: readUntil_def headerSeparator_def)

text \<open>
  The loop of \<open>readHeaders\<close>: \<open>headerRaw\<close> and \<open>err\<close> are the result of the last
  \<open>readUntil\<close>, \<open>buffer\<close> what is left to read.
\<close>

function readHeaders_loop ::
    "(string \<rightharpoonup> string) \<Rightarrow> string \<Rightarrow> error option \<Rightarrow> string \<Rightarrow> (string \<rightharpoonup> string) \<times> error option \<times> string" where
  "readHeaders_loop headers headerRaw err buffer =
     (if err = None \<and> headerRaw \<noteq> CRLF
      then (let header = TrimRight headerRaw CRLF
            in case parseHeader header of
                 Inl e \<Rightarrow> (headers, Some e, buffer)
               | Inr headerPair \<Rightarrow>
                   (case readUntil buffer headerSeparator of
                      (headerRaw', err', buffer') \<Rightarrow>
                        readHeaders_loop (headers(headerPair ! 0 \<mapsto> headerPair ! 1)) headerRaw' err' buffer'))
      else (headers, err, buffer))"
  by pat_completeness auto
termination
proof (relation "measure (\<lambda>(headers, headerRaw, err, buffer). if err = None then Suc (length buffer) else 0)")
  show "wf (measure (\<lambda>(headers, headerRaw, err, buffer). if err = None then Suc (length buffer) else 0))"
    by simp
next
  fix headers :: "string \<rightharpoonup> string" and headerRaw :: string and err :: "error option"
    and buffer header headerPair x y headerRaw' err' buffer'
  assume "err = None \<and> headerRaw \<noteq> CRLF"
    and "(headerRaw', y) = readUntil buffer headerSeparator"
    and "(err', buffer') = y"
  then have "err = None" and r: "readUntil buffer headerSeparator = (headerRaw', err', buffer')"
    by simp_all
  then show "((headers(headerPair ! 0 \<mapsto> headerPair ! 1), headerRaw', err', buffer'), headers, headerRaw, err, buffer)
      \<in> measure (\<lambda>(headers, headerRaw, err, buffer). if err = None then Suc (length buffer) else 0)"
    using readUntil_progress [of buffer headerRaw' buffer'] by (cases err') simp_all
qed

declare readHeaders_loop.simps [simp del]

definition readHeaders :: "string \<Rightarrow> (string \<rightharpoonup> string) \<times> error option \<times> string" where
  "readHeaders buffer =
     (case readUntil buffer headerSeparator of
        (headerRaw, err, buffer') \<Rightarrow> readHeaders_loop Map.empty headerRaw err buffer')"

text \<open>
  \<open>ParsePacket\<close> returns \<open>(packet, err)\<close>, both of which may be nil (\<open>None\<close>), and
  leaves the buffer advanced: the third component is what is left of it.
\<close>

definition ParsePacket ::
    "(string \<Rightarrow> json_error + 'm) \<Rightarrow> string \<Rightarrow> 'm Packet option \<times> error option \<times> string" where
  \<open>ParsePacket dec buffer =
     (case readUntil buffer headerSeparator of
        (identifier, err, buffer) \<Rightarrow>
          if err \<noteq> None then (None, err, buffer)
          else let ident = TrimRight identifier CRLF in
          if ident = requestActionIdentifier
          then (case readHeaders buffer of
                  (headers, err, buffer) \<Rightarrow>
                    if err \<noteq> None then (None, err, buffer)
                    else (case headers ''REQUEST-UUID'' of
                      None \<Rightarrow>
                        (None, Some (ErrorString ''malformed packet: "REQUEST-UUID" header not found''), buffer)
                    | Some packetRequestUUIDString \<Rightarrow>
                    (case uuid_Parse packetRequestUUIDString of
                      Inl err \<Rightarrow> (None, Some err, buffer)
                    | Inr packetRequestUUID \<Rightarrow>
                    (case headers ''ACTION-ID'' of
                      None \<Rightarrow>
                        (None, Some (ErrorString ''malformed packet: "ACTION-ID" header not found''), buffer)
                    | Some packetActionIdString \<Rightarrow>
                    (case ParseUint packetActionIdString 8 of
                      Inl err \<Rightarrow> (None, Some err, buffer)
                    | Inr packetActionId \<Rightarrow>
                    (case readUntil buffer headerSeparator of
                      (parametersBytes, err, buffer) \<Rightarrow>
                        if err = None
                        then (case json_Unmarshal dec parametersBytes of
                                Inl err \<Rightarrow> (None, Some err, buffer)
                              | Inr parametersJSON \<Rightarrow>
                                  (Some (RequestAction \<lparr>RequestUUID = packetRequestUUID,
                                     ActionId = word_of_nat packetActionId,
                                     Parameters = parametersJSON\<rparr>), None, buffer))
                        else (Some (RequestAction \<lparr>RequestUUID = packetRequestUUID,
                                ActionId = word_of_nat packetActionId,
                                Parameters = None\<rparr>), None, buffer)))))))
          else if ident = responseActionIdentifier
          then (None, None, buffer)
          else if ident = discoveryIdentifier
          then (case readHeaders buffer of
                  (headers, err, buffer) \<Rightarrow>
                    if err \<noteq> None then (None, err, buffer)
                    else (case headers ''TYPE'' of
                      None \<Rightarrow> (None, Some (ErrorString ''malformed packet: "TYPE" header not found''), buffer)
                    | Some packetType \<Rightarrow>
                    (case headers ''HOST'' of
                      None \<Rightarrow> (None, Some (ErrorString ''malformed packet: "HOST" header not found''), buffer)
                    | Some packetHost \<Rightarrow>
                    (case SplitHostPort packetHost of
                      Inl err \<Rightarrow> (None, Some (ErrorString ''malformed packet: invalid ip/port pair''), buffer)
                    | Inr (host, portString) \<Rightarrow>
                    (case ParseIP host of
                      None \<Rightarrow> (None, Some (ErrorString ''malformed packet: hostname is not supported''), buffer)
                    | Some ip \<Rightarrow>
                    (case ParseUint portString 16 of
                      Inl err \<Rightarrow> (None, Some err, buffer)
                    | Inr port \<Rightarrow>
                        if packetType = requestDiscoveryType
                        then (Some (Discovery (NewRequestDiscoveryPacket ip (word_of_nat port))), None, buffer)
                        else if packetType = responseDiscoveryType
                        then (Some (Discovery (NewResponseDiscoveryPacket ip (word_of_nat port))), None, buffer)
                        else (None, Some (ErrorString
                                (''malformed packet: type "'' @ packetType @ ''" not supported'')), buffer)))))))
          else (None, Some (ErrorString ''malformed packet: identifier not knwon''), buffer))\<close>

subsection \<open>Predicates and examples used in the statements\<close>

text \<open>
  The texts \<open>uuid.Parse\<close> accepts: \<open>hyphenatedForm\<close> is what it checks of the 36
  characters \<open>xxxxxxxx-xxxx-xxxx-xxxx-xxxxxxxxxxxx\<close>.
\<close>

definition isHex :: "char \<Rightarrow> bool" where
  "isHex c \<longleftrightarrow> hexValue c \<noteq> None"

definition hyphenatedForm :: "string \<Rightarrow> bool" where
  "hyphenatedForm s \<longleftrightarrow>
     s ! 8 = CHR ''-'' \<and> s ! 13 = CHR ''-'' \<and> s ! 18 = CHR ''-'' \<and> s ! 23 = CHR ''-''
     \<and> list_all (\<lambda>x. isHex (s ! x) \<and> isHex (s ! (x + 1)))
          [0, 2, 4, 6, 9, 11, 14, 16, 19, 21, 24, 26, 28, 30, 32, 34]"

definition uuidTextForm :: "string \<Rightarrow> bool" where
  "uuidTextForm s \<longleftrightarrow>
     (if length s = 36 then hyphenatedForm s
      else if length s = 45 then EqualFold (take 9 s) ''urn:uuid:'' \<and> hyphenatedForm (drop 9 s)
      else if length s = 38 then hyphenatedForm (drop 1 s)
      else length s = 32 \<and> list_all isHex s)"

definition requestHeadersOK :: "(string \<rightharpoonup> string) \<Rightarrow> bool" where
  "requestHeadersOK headers \<longleftrightarrow>
     (case headers ''REQUEST-UUID'' of
        None \<Rightarrow> False
      | Some uuidText \<Rightarrow> uuidTextForm uuidText) \<and>
     (case headers ''ACTION-ID'' of
        None \<Rightarrow> False
      | Some actionText \<Rightarrow>
          actionText \<noteq> [] \<and> list_all isDigit actionText \<and>
          (case ParseUint actionText 8 of Inl e \<Rightarrow> False | Inr a \<Rightarrow> a \<le> 255))"

definition discoveryHeadersOK :: "(string \<rightharpoonup> string) \<Rightarrow> bool" where
  "discoveryHeadersOK headers \<longleftrightarrow>
     (case headers ''TYPE'' of
        None \<Rightarrow> False
      | Some t \<Rightarrow>
          (t = requestDiscoveryType \<or> t = responseDiscoveryType) \<and>
          (case headers ''HOST'' of
             None \<Rightarrow> False
           | Some h \<Rightarrow>
               (case SplitHostPort h of
                  Inl e \<Rightarrow> False
                | Inr (host, portString) \<Rightarrow> ParseIP host \<noteq> None)))"

text \<open>
  The shape of a header block, byte by byte. A header line is a run of bytes with no
  CR LF inside that contains the separator \<open>": "\<close>; \<open>headerLines ls\<close> is the lines \<open>ls\<close>,
  each followed by CR LF.
\<close>

definition headerLine :: "string \<Rightarrow> bool" where
  "headerLine l \<longleftrightarrow> \<not> sublist CRLF l \<and> sublist '': '' l"

definition headerLines :: "string list \<Rightarrow> string" where
  "headerLines ls = concat (map (\<lambda>l. l @ CRLF) ls)"

text \<open>
  An encoder and a decoder of objects for the concrete examples, where the only map is
  the empty one: it is encoded as \<open>{}\<close>, the texts that consist of \<open>{\<close>, \<open>}\<close> and
  JSON white space are decoded to it, and the decoder reports a syntax error on every
  other text. They agree with encoding/json on the texts of the examples (\<open>{}\<close>, which
  is the empty object, and \<open>{key}\<close>, which is not JSON).
\<close>

definition exampleEncoder :: "unit \<Rightarrow> json_error + string" where
  "exampleEncoder m = Inr ''{}''"

definition exampleDecoder :: "string \<Rightarrow> json_error + unit" where
  "exampleDecoder data =
     (if filter (\<lambda>c. \<not> isJSONSpace c) data = ''{}'' then Inr ()
      else Inl (SyntaxError ''invalid character''))"

abbreviation exampleUUID :: UUID where
  "exampleUUID \<equiv> [0x00, 0x11, 0x22, 0x33, 0x44, 0x55, 0x66, 0x77, 0x88, 0x99, 0xaa, 0xbb, 0xcc, 0xdd, 0xee, 0xff]"

section \<open>Evaluation\<close>

text \<open>
  The rewrite rules that evaluate the codec and the library functions on concrete input.
\<close>

lemma replicate_numeral:
  "replicate (numeral k) x = x # replicate (pred_numeral k) x"
  by (simp add: numeral_eq_Suc)

lemmas const_defs =
  preffix_def actionPreffix_def discoveryIdentifier_def headerSeparator_def endPacket_def
  requestDiscoveryType_def responseDiscoveryType_def requestActionIdentifier_def
  responseActionIdentifier_def

lemmas lib_defs =
  ParseIP_def parseIPv4_def parseIPv6_def IPv4len_def IPv6len_def dtoi_def xtoi_def
  isDigit_def hexValue_def big_def IPv4_def v4InV6Prefix_def ParseUint_def cutoff_def
  SplitHostPort_def LastIndexByte_def addrErr_def SplitN_def TrimRight_def digitChar_def
  parseIPv4_loop.simps parseIPv6_loop.simps FormatUint.simps replicate_numeral
  xtob_def toLowerASCII_def EqualFold_def decodeHexPairs_def parseHyphenated_def uuid_Parse_def
  hexDigit_def hex_Encode_def UUID_String_def isJSONSpace_def trimJSONSpace_def
  json_Marshal_def json_Unmarshal_def

lemmas ip_defs =
  IP_String_def To4_def zeroRun_end.simps longestZeroRun.simps hexDigits.simps groups_def
  joinGroups_def

lemmas codec_defs =
  ParsePacket_def readHeaders_def readHeaders_loop.simps parseHeader_def readUntil_def
  NewRequestDiscoveryPacket_def NewResponseDiscoveryPacket_def NewRequestActionPacket_def
  NewResponseActionPacket_def
  RequestActionPacket_String_def ResponseActionPacket_String_def
  RequestActionPacket_Bytes_def ResponseActionPacket_Bytes_def
  DiscoveryPacket_String_def DiscoveryPacket_Bytes_def

lemma identifiers_distinct:
  "requestActionIdentifier \<noteq> responseActionIdentifier"
  "requestActionIdentifier \<noteq> discoveryIdentifier"
  "responseActionIdentifier \<noteq> discoveryIdentifier"
  "discoveryIdentifier \<noteq> requestActionIdentifier"
  "discoveryIdentifier \<noteq> responseActionIdentifier"
  "responseActionIdentifier \<noteq> requestActionIdentifier"
  by (simp_all add: const_defs)

section \<open>Properties of the lexer\<close>

lemma readUntil_loop_consumed:
  "readUntil_loop delim read out buffer = (out', err, rest) \<Longrightarrow> out @ buffer = out' @ rest"
proof (induction buffer arbitrary: read out)
  case Nil
  then show ?case by (auto split: if_splits)
next
  case (Cons readByte buffer)
  show ?case
    using Cons.prems Cons.IH [of "read[0 := read ! 1, 1 := readByte]" "out @ [readByte]"]
    by (auto split: if_splits)
qed

lemma readUntil_consumed:
  "readUntil buffer delim = (out, err, rest) \<Longrightarrow> buffer = out @ rest"
  using readUntil_loop_consumed [of delim _ "[]" buffer out err rest]
  by (simp add: readUntil_def)

lemma sublist_pair_Cons:
  "sublist [a, b] (x # y # zs) \<longleftrightarrow> (a = x \<and> b = y) \<or> sublist [a, b] (y # zs)"
  by (auto simp: sublist_Cons_right)

lemma readUntil_loop_no_delim:
  "\<not> sublist [d0, d1] (b # buffer) \<Longrightarrow> [a, b] \<noteq> [d0, d1] \<Longrightarrow>
   readUntil_loop [d0, d1] [a, b] out buffer = (out @ buffer, Some EOF, [])"
proof (induction buffer arbitrary: a b out)
  case Nil
  then show ?case by simp
next
  case (Cons x xs)
  from Cons.prems(1) have step: "\<not> (d0 = b \<and> d1 = x)" and rest: "\<not> sublist [d0, d1] (x # xs)"
    by (simp_all add: sublist_pair_Cons)
  from step have "[b, x] \<noteq> [d0, d1]" by auto
  with rest have "readUntil_loop [d0, d1] [b, x] (out @ [x]) xs = ((out @ [x]) @ xs, Some EOF, [])"
    by (rule Cons.IH)
  with Cons.prems(2) show ?case by simp
qed

lemma readUntil_no_delim:
  assumes "\<not> sublist CRLF buffer"
  shows "readUntil buffer CRLF = (buffer, Some EOF, [])"
proof -
  have "\<not> sublist CRLF (CHR 0x00 # buffer)"
    using assms by (cases buffer) (simp_all add: sublist_pair_Cons sublist_Cons_right)
  then have "readUntil_loop CRLF [CHR 0x00, CHR 0x00] [] buffer = ([] @ buffer, Some EOF, [])"
    by (rule readUntil_loop_no_delim) simp
  then show ?thesis by (simp add: readUntil_def)
qed

lemma readUntil_loop_first_delim:
  "\<not> sublist [d0, d1] (b # xs @ [d0]) \<Longrightarrow> [a, b] \<noteq> [d0, d1] \<Longrightarrow>
   readUntil_loop [d0, d1] [a, b] out (xs @ d0 # d1 # ys) = (out @ xs @ [d0, d1], None, ys)"
proof (induction xs arbitrary: a b out)
  case Nil
  then have "[b, d0] \<noteq> [d0, d1]" by (auto simp: sublist_pair_Cons sublist_Cons_right)
  with Nil show ?case by simp
next
  case (Cons x xs)
  from Cons.prems(1) have step: "\<not> (d0 = b \<and> d1 = x)" and rest: "\<not> sublist [d0, d1] (x # xs @ [d0])"
    by (simp_all add: sublist_pair_Cons)
  from step have "[b, x] \<noteq> [d0, d1]" by auto
  with rest have "readUntil_loop [d0, d1] [b, x] (out @ [x]) (xs @ d0 # d1 # ys)
      = ((out @ [x]) @ xs @ [d0, d1], None, ys)"
    by (rule Cons.IH)
  with Cons.prems(2) show ?case by simp
qed

lemma readUntil_first_delim:
  assumes "\<not> sublist CRLF (xs @ [CHR 0x0D])"
  shows "readUntil (xs @ CRLF @ ys) CRLF = (xs @ CRLF, None, ys)"
proof -
  have "\<not> sublist CRLF (CHR 0x00 # xs @ [CHR 0x0D])"
    using assms by (cases xs) (simp_all add: sublist_pair_Cons sublist_Cons_right)
  then have "readUntil_loop CRLF [CHR 0x00, CHR 0x00] [] (xs @ CHR 0x0D # CHR 0x0A # ys)
      = ([] @ xs @ CRLF, None, ys)"
    by (rule readUntil_loop_first_delim) simp
  then show ?thesis by (simp add: readUntil_def)
qed

text \<open>
  Claim C2. On a buffer with no CR LF, \<open>readUntil\<close> returns every byte of the buffer
  with the status \<open>io.EOF\<close> (a value of its own, different from every other error);
  whatever it returns, the bytes returned followed by the bytes left are the buffer,
  so the next call resumes exactly where this one stopped; at the first CR LF it stops
  with no error. On \<open>"DYLLABLE-DISCOVERY"\<close> it returns the whole input and \<open>io.EOF\<close>, and
  four calls threaded through the buffer \<open>"A\r\nB\r\n\r\n"\<close> return \<open>"A\r\n"\<close>,
  \<open>"B\r\n"\<close>, \<open>"\r\n"\<close> and then \<open>io.EOF\<close>.
\<close>

theorem readUntil_lexer:
  "(\<not> sublist CRLF buffer \<longrightarrow> readUntil buffer CRLF = (buffer, Some EOF, []))
   \<and> (\<not> sublist CRLF (xs @ [CHR 0x0D]) \<longrightarrow> readUntil (xs @ CRLF @ ys) CRLF = (xs @ CRLF, None, ys))
   \<and> (case readUntil buffer CRLF of (out, err, rest) \<Rightarrow> buffer = out @ rest)
   \<and> EOF \<noteq> ErrorString msg
   \<and> readUntil ''DYLLABLE-DISCOVERY'' CRLF = (''DYLLABLE-DISCOVERY'', Some EOF, [])
   \<and> (let (r1, e1, b1) = readUntil (''A'' @ CRLF @ ''B'' @ CRLF @ CRLF) CRLF;
           (r2, e2, b2) = readUntil b1 CRLF;
           (r3, e3, b3) = readUntil b2 CRLF;
           (r4, e4, b4) = readUntil b3 CRLF
       in [(r1, e1), (r2, e2), (r3, e3), (r4, e4)])
      = [(''A'' @ CRLF, None), (''B'' @ CRLF, None), (CRLF, None), ([], Some EOF)]"
proof (intro conjI impI)
  show "readUntil buffer CRLF = (buffer, Some EOF, [])" if "\<not> sublist CRLF buffer"
    using that by (rule readUntil_no_delim)
  show "readUntil (xs @ CRLF @ ys) CRLF = (xs @ CRLF, None, ys)" if "\<not> sublist CRLF (xs @ [CHR 0x0D])"
    using that by (rule readUntil_first_delim)
  show "case readUntil buffer CRLF of (out, err, rest) \<Rightarrow> buffer = out @ rest"
    by (auto dest: readUntil_consumed)
  show "EOF \<noteq> ErrorString msg"
    by simp
  show "readUntil ''DYLLABLE-DISCOVERY'' CRLF = (''DYLLABLE-DISCOVERY'', Some EOF, [])"
    by (simp add: readUntil_def)
  show "(let (r1, e1, b1) = readUntil (''A'' @ CRLF @ ''B'' @ CRLF @ CRLF) CRLF;
           (r2, e2, b2) = readUntil b1 CRLF;
           (r3, e3, b3) = readUntil b2 CRLF;
           (r4, e4, b4) = readUntil b3 CRLF
       in [(r1, e1), (r2, e2), (r3, e3), (r4, e4)])
      = [(''A'' @ CRLF, None), (''B'' @ CRLF, None), (CRLF, None), ([], Some EOF)]"
    by (simp add: readUntil_def)
qed

theorem readUntil_lexer_witness:
  "\<not> sublist CRLF ''TYPE: DISCOVERY''
   \<and> readUntil ''TYPE: DISCOVERY'' CRLF = (''TYPE: DISCOVERY'', Some EOF, [])
   \<and> \<not> sublist CRLF (''HOST: 127.0.0.1:8400'' @ [CHR 0x0D])
   \<and> readUntil (''HOST: 127.0.0.1:8400'' @ CRLF @ CRLF) CRLF = (''HOST: 127.0.0.1:8400'' @ CRLF, None, CRLF)"
proof -
  have a: "\<not> sublist CRLF ''TYPE: DISCOVERY''"
    by code_simp
  have b: "\<not> sublist CRLF (''HOST: 127.0.0.1:8400'' @ [CHR 0x0D])"
    by code_simp
  from a b readUntil_lexer [of "''TYPE: DISCOVERY''" "''HOST: 127.0.0.1:8400''" CRLF]
  show ?thesis by simp
qed

section \<open>What the library functions accept\<close>

lemma those_map_ok:
  "those (map f xs) \<noteq> None \<longleftrightarrow> list_all (\<lambda>x. f x \<noteq> None) xs"
  by (induction xs) (auto split: option.splits)

lemma xtob_ok: "xtob x1 x2 \<noteq> None \<longleftrightarrow> isHex x1 \<and> isHex x2"
  by (auto simp: xtob_def isHex_def split: option.splits)

lemma decodeHexPairs_ok:
  "\<not> isl (decodeHexPairs s ps) \<longleftrightarrow> list_all (\<lambda>x. isHex (s ! x) \<and> isHex (s ! (x + 1))) ps"
proof -
  have "\<not> isl (decodeHexPairs s ps) \<longleftrightarrow> those (map (\<lambda>x. xtob (s ! x) (s ! (x + 1))) ps) \<noteq> None"
    by (cases "those (map (\<lambda>x. xtob (s ! x) (s ! (x + 1))) ps)") (simp_all add: decodeHexPairs_def)
  also have "\<dots> \<longleftrightarrow> list_all (\<lambda>x. xtob (s ! x) (s ! (x + 1)) \<noteq> None) ps"
    by (rule those_map_ok)
  also have "\<dots> \<longleftrightarrow> list_all (\<lambda>x. isHex (s ! x) \<and> isHex (s ! (x + 1))) ps"
    by (simp only: xtob_ok)
  finally show ?thesis .
qed

lemma parseHyphenated_ok: "\<not> isl (parseHyphenated s) \<longleftrightarrow> hyphenatedForm s"
  using decodeHexPairs_ok [of s "[0, 2, 4, 6, 9, 11, 14, 16, 19, 21, 24, 26, 28, 30, 32, 34]"]
  by (auto simp: parseHyphenated_def hyphenatedForm_def)

lemma upt_32:
  "[0..<32] = [0, 1, 2, 3, 4, 5, 6, 7, 8, 9, 10, 11, 12, 13, 14, 15, 16, 17, 18, 19, 20, 21,
      22, 23, 24, 25, 26, 27, 28, 29, 30, 31 :: nat]"
  by (simp add: upt_rec)

lemma raw_hex_ok:
  assumes "length s = 32"
  shows "list_all (\<lambda>x. isHex (s ! x) \<and> isHex (s ! (x + 1)))
           [0, 2, 4, 6, 8, 10, 12, 14, 16, 18, 20, 22, 24, 26, 28, 30] \<longleftrightarrow> list_all isHex s"
proof -
  have "list_all isHex s \<longleftrightarrow> (\<forall>i<32. isHex (s ! i))"
    using assms by (simp add: list_all_length)
  also have "\<dots> \<longleftrightarrow> (\<forall>i\<in>set [0..<32]. isHex (s ! i))"
    by auto
  also have "\<dots> \<longleftrightarrow> list_all (\<lambda>i. isHex (s ! i)) [0..<32]"
    by (simp only: list_all_iff)
  finally show ?thesis
    unfolding upt_32 by auto
qed

lemma uuid_Parse_ok: "\<not> isl (uuid_Parse s) \<longleftrightarrow> uuidTextForm s"
  using raw_hex_ok [of s] decodeHexPairs_ok [of s "[0, 2, 4, 6, 8, 10, 12, 14, 16, 18, 20, 22, 24, 26, 28, 30]"]
  by (simp add: uuid_Parse_def uuidTextForm_def parseHyphenated_ok)

lemma ParseUint_loop_ok:
  "ParseUint_loop maxVal n s = Inr a \<Longrightarrow> list_all isDigit s \<and> (s \<noteq> [] \<longrightarrow> a \<le> maxVal)"
proof (induction s arbitrary: n)
  case Nil
  then show ?case by simp
next
  case (Cons c cs)
  let ?n1 = "(n * 10 + (of_char c - 48)) mod 18446744073709551616"
  from Cons.prems have d: "isDigit c" and le: "?n1 \<le> maxVal"
    and rec: "ParseUint_loop maxVal ?n1 cs = Inr a"
    by (auto simp: Let_def split: if_splits)
  from Cons.IH [OF rec] have "list_all isDigit cs" and "cs \<noteq> [] \<longrightarrow> a \<le> maxVal"
    by simp_all
  moreover have "a = ?n1" if "cs = []"
    using rec that by simp
  ultimately show ?case using d le by auto
qed

lemma ParseUint_ok:
  "ParseUint s 8 = Inr a \<Longrightarrow> s \<noteq> [] \<and> list_all isDigit s \<and> a \<le> 255"
  using ParseUint_loop_ok [of 255 0 s a]
  by (auto simp: ParseUint_def split: if_splits sum.splits)

section \<open>Properties of the parser\<close>

text \<open>How \<open>ParsePacket\<close> continues after each of the three identifiers.\<close>

lemma ParsePacket_discovery:
  assumes "readUntil buffer headerSeparator = (line, None, b1)"
    and "TrimRight line CRLF = discoveryIdentifier"
    and "readHeaders b1 = (headers, herr, b2)"
  shows \<open>ParsePacket dec buffer =
     (if herr \<noteq> None then (None, herr, b2)
      else (case headers ''TYPE'' of
              None \<Rightarrow> (None, Some (ErrorString ''malformed packet: "TYPE" header not found''), b2)
            | Some packetType \<Rightarrow>
            (case headers ''HOST'' of
               None \<Rightarrow> (None, Some (ErrorString ''malformed packet: "HOST" header not found''), b2)
             | Some packetHost \<Rightarrow>
             (case SplitHostPort packetHost of
                Inl err \<Rightarrow> (None, Some (ErrorString ''malformed packet: invalid ip/port pair''), b2)
              | Inr (host, portString) \<Rightarrow>
              (case ParseIP host of
                 None \<Rightarrow> (None, Some (ErrorString ''malformed packet: hostname is not supported''), b2)
               | Some ip \<Rightarrow>
               (case ParseUint portString 16 of
                  Inl err \<Rightarrow> (None, Some err, b2)
                | Inr port \<Rightarrow>
                    if packetType = requestDiscoveryType
                    then (Some (Discovery (NewRequestDiscoveryPacket ip (word_of_nat port))), None, b2)
                    else if packetType = responseDiscoveryType
                    then (Some (Discovery (NewResponseDiscoveryPacket ip (word_of_nat port))), None, b2)
                    else (None, Some (ErrorString
                            (''malformed packet: type "'' @ packetType @ ''" not supported'')), b2)))))))\<close>
  by (simp add: ParsePacket_def assms identifiers_distinct)

lemma ParsePacket_request:
  assumes "readUntil buffer headerSeparator = (line, None, b1)"
    and "TrimRight line CRLF = requestActionIdentifier"
    and "readHeaders b1 = (headers, herr, b2)"
  shows \<open>ParsePacket dec buffer =
     (if herr \<noteq> None then (None, herr, b2)
      else (case headers ''REQUEST-UUID'' of
              None \<Rightarrow> (None, Some (ErrorString ''malformed packet: "REQUEST-UUID" header not found''), b2)
            | Some uuidText \<Rightarrow>
            (case uuid_Parse uuidText of
               Inl err \<Rightarrow> (None, Some err, b2)
             | Inr u \<Rightarrow>
             (case headers ''ACTION-ID'' of
                None \<Rightarrow> (None, Some (ErrorString ''malformed packet: "ACTION-ID" header not found''), b2)
              | Some actionText \<Rightarrow>
              (case ParseUint actionText 8 of
                 Inl err \<Rightarrow> (None, Some err, b2)
               | Inr a \<Rightarrow>
               (case readUntil b2 headerSeparator of
                  (body, berr, b3) \<Rightarrow>
                    if berr = None
                    then (case json_Unmarshal dec body of
                            Inl err \<Rightarrow> (None, Some err, b3)
                          | Inr parametersJSON \<Rightarrow>
                              (Some (RequestAction \<lparr>RequestUUID = u, ActionId = word_of_nat a,
                                 Parameters = parametersJSON\<rparr>), None, b3))
                    else (Some (RequestAction \<lparr>RequestUUID = u, ActionId = word_of_nat a,
                            Parameters = None\<rparr>), None, b3)))))))\<close>
  by (simp add: ParsePacket_def assms identifiers_distinct)

text \<open>The first lines and header blocks of the examples.\<close>

lemma example_header_blocks:
  "readHeaders (''HOST: 127.0.0.1:8400'' @ CRLF) = ([''HOST'' \<mapsto> ''127.0.0.1:8400''], Some EOF, [])"
  "readHeaders (''HOST: 127.0.0.1:8400'' @ CRLF @ CRLF) = ([''HOST'' \<mapsto> ''127.0.0.1:8400''], None, [])"
  "readHeaders (''TYPE: RUNNING-APP'' @ CRLF @ CRLF) = ([''TYPE'' \<mapsto> ''RUNNING-APP''], None, [])"
  "readHeaders (''TYPE: DISCOVERY'' @ CRLF @ ''HOST: 127.0.0.1'' @ CRLF @ CRLF)
     = ([''TYPE'' \<mapsto> ''DISCOVERY'', ''HOST'' \<mapsto> ''127.0.0.1''], None, [])"
  "readHeaders (''TYPE: DISCOVERY'' @ CRLF @ ''HOST: localhost:8400'' @ CRLF @ CRLF)
     = ([''TYPE'' \<mapsto> ''DISCOVERY'', ''HOST'' \<mapsto> ''localhost:8400''], None, [])"
  "readHeaders (''TYPE: DISCOVERY'' @ CRLF @ ''HOST: 127.0.0.1:99999'' @ CRLF @ CRLF)
     = ([''TYPE'' \<mapsto> ''DISCOVERY'', ''HOST'' \<mapsto> ''127.0.0.1:99999''], None, [])"
  "readHeaders (''TYPE: INVALID'' @ CRLF @ ''HOST: 127.0.0.1:8400'' @ CRLF @ CRLF)
     = ([''TYPE'' \<mapsto> ''INVALID'', ''HOST'' \<mapsto> ''127.0.0.1:8400''], None, [])"
  by (simp_all add: readHeaders_def readHeaders_loop.simps parseHeader_def readUntil_def
      headerSeparator_def SplitN_def TrimRight_def)

lemma discovery_first_line:
  "readUntil (''DYLLABLE-DISCOVERY'' @ CRLF @ rest) headerSeparator = (''DYLLABLE-DISCOVERY'' @ CRLF, None, rest)"
  "TrimRight (''DYLLABLE-DISCOVERY'' @ CRLF) CRLF = discoveryIdentifier"
  by (simp_all add: readUntil_def const_defs TrimRight_def)

lemma request_first_line:
  "readUntil (''DYLLABLE-ACTION-REQUEST'' @ CRLF @ rest) headerSeparator
     = (''DYLLABLE-ACTION-REQUEST'' @ CRLF, None, rest)"
  "TrimRight (''DYLLABLE-ACTION-REQUEST'' @ CRLF) CRLF = requestActionIdentifier"
  by (simp_all add: readUntil_def const_defs TrimRight_def)

lemma example_request_blocks:
  "readHeaders (''REQUEST-UUID: 00112233-4455-6677-8899-aabbccddeeff'' @ CRLF @ CRLF)
     = ([''REQUEST-UUID'' \<mapsto> ''00112233-4455-6677-8899-aabbccddeeff''], None, [])"
  "readHeaders (''REQUEST-UUID: 1'' @ CRLF @ ''ACTION-ID: 100'' @ CRLF @ CRLF)
     = ([''REQUEST-UUID'' \<mapsto> ''1'', ''ACTION-ID'' \<mapsto> ''100''], None, [])"
  "readHeaders (''REQUEST-UUID: 00112233-4455-6677-8899-aabbccddeeff'' @ CRLF @ ''ACTION-ID: 256'' @ CRLF @ CRLF)
     = ([''REQUEST-UUID'' \<mapsto> ''00112233-4455-6677-8899-aabbccddeeff'', ''ACTION-ID'' \<mapsto> ''256''], None, [])"
  "readHeaders (''ACTION-ID: 100'' @ CRLF @ CRLF) = ([''ACTION-ID'' \<mapsto> ''100''], None, [])"
  "readHeaders (''REQUEST-UUID: 00112233-4455-6677-8899-aabbccddeeff'' @ CRLF @ ''ACTION-ID: 100'')
     = ([''REQUEST-UUID'' \<mapsto> ''00112233-4455-6677-8899-aabbccddeeff''], Some EOF, [])"
  "readHeaders (''REQUEST-UUID: 00112233-4455-6677-8899-aabbccddeeff'' @ CRLF @ ''ACTION-ID: 7'' @ CRLF @ CRLF @ rest)
     = ([''REQUEST-UUID'' \<mapsto> ''00112233-4455-6677-8899-aabbccddeeff'', ''ACTION-ID'' \<mapsto> ''7''], None, rest)"
  by (simp_all add: readHeaders_def readHeaders_loop.simps parseHeader_def readUntil_def
      headerSeparator_def SplitN_def TrimRight_def)

lemma example_request_values:
  "uuid_Parse ''00112233-4455-6677-8899-aabbccddeeff'' = Inr exampleUUID"
  "uuid_Parse ''1'' = Inl (InvalidLengthError 1)"
  "ParseUint ''256'' 8 = Inl (NumError ''ParseUint'' ''256'' ErrRange)"
  "ParseUint ''100'' 8 = Inr 100"
  "ParseUint ''7'' 8 = Inr 7"
  by (simp_all add: lib_defs)

lemma example_bodies:
  "readUntil [] headerSeparator = ([], Some EOF, [])"
  "readUntil ''{}'' headerSeparator = (''{}'', Some EOF, [])"
  "readUntil (''null'' @ CRLF) headerSeparator = (''null'' @ CRLF, None, [])"
  "readUntil (''{}'' @ CRLF @ CRLF) headerSeparator = (''{}'' @ CRLF, None, CRLF)"
  "readUntil (''{key}'' @ CRLF @ CRLF) headerSeparator = (''{key}'' @ CRLF, None, CRLF)"
  by (simp_all add: readUntil_def headerSeparator_def)

lemma example_decodings:
  "trimJSONSpace (''null'' @ CRLF) = ''null''"
  "trimJSONSpace (''{}'' @ CRLF) \<noteq> ''null''"
  "trimJSONSpace (''{key}'' @ CRLF) \<noteq> ''null''"
  "exampleDecoder (''{}'' @ CRLF) = Inr ()"
  "exampleDecoder (''{key}'' @ CRLF) = Inl (SyntaxError ''invalid character'')"
  by (simp_all add: trimJSONSpace_def isJSONSpace_def exampleDecoder_def)

text \<open>
  Claim C10. For every buffer whose first line is \<open>"DYLLABLE-ACTION-RESPONSE\r\n"\<close>,
  whatever follows it, \<open>ParsePacket\<close> returns a nil packet and a nil error, having read
  the first line only: the branch of the response identifier is empty.
\<close>

theorem ParsePacket_response_unimplemented:
  "ParsePacket dec (''DYLLABLE-ACTION-RESPONSE'' @ CRLF @ rest) = (None, None, rest)"
  by (simp add: ParsePacket_def readUntil_def const_defs TrimRight_def)

text \<open>
  Claim C4. Parsing \<open>"DYLLABLE-DISCOVERY\r\nTYPE: RUNNING-APP\r\nHOST: 127.0.0.1:8400\r\n\r\n"\<close>
  succeeds (the error is nil) and returns a \<open>DiscoveryPacket\<close> whose address is
  \<open>127.0.0.1\<close>, whose port is 8400 and whose type is the response type \<open>RUNNING-APP\<close>.
\<close>

theorem ParsePacket_running_app:
  "ParsePacket dec (''DYLLABLE-DISCOVERY'' @ CRLF @ ''TYPE: RUNNING-APP'' @ CRLF
      @ ''HOST: 127.0.0.1:8400'' @ CRLF @ CRLF)
   = (Some (Discovery \<lparr>Address = IPv4 127 0 0 1, Port = 8400, Type = responseDiscoveryType\<rparr>), None, [])"
  by (simp add: codec_defs const_defs lib_defs)

subsection \<open>Errors of the parser\<close>

lemma readUntil_loop_error:
  "readUntil_loop delim read out buffer = (out', Some e, rest) \<Longrightarrow> length read = 2 \<Longrightarrow> e = EOF"
proof (induction buffer arbitrary: read out)
  case Nil
  then show ?case by (auto split: if_splits)
next
  case (Cons readByte buffer)
  show ?case
    using Cons.prems Cons.IH [of "read[0 := read ! 1, 1 := readByte]" "out @ [readByte]"]
    by (auto split: if_splits)
qed

lemma readUntil_error:
  "readUntil buffer headerSeparator = (out, Some e, rest) \<Longrightarrow> e = EOF"
  using readUntil_loop_error [of CRLF "[CHR 0x00, CHR 0x00]" "[]" buffer out e rest]
  by (simp add: readUntil_def headerSeparator_def)

lemma readHeaders_loop_error:
  "readHeaders_loop headers headerRaw err buffer = (headers', Some e, rest) \<Longrightarrow>
   err = None \<or> err = Some EOF \<Longrightarrow>
   e = EOF \<or> e = ErrorString ''invalid header line''"
proof (induction headers headerRaw err buffer rule: readHeaders_loop.induct)
  case (1 headers headerRaw err buffer)
  from "1.prems"(1) have eq:
    "(if err = None \<and> headerRaw \<noteq> CRLF
      then (let header = TrimRight headerRaw CRLF
            in case parseHeader header of
                 Inl e \<Rightarrow> (headers, Some e, buffer)
               | Inr headerPair \<Rightarrow>
                   (case readUntil buffer headerSeparator of
                      (headerRaw', err', buffer') \<Rightarrow>
                        readHeaders_loop (headers(headerPair ! 0 \<mapsto> headerPair ! 1)) headerRaw' err' buffer'))
      else (headers, err, buffer)) = (headers', Some e, rest)"
    by (subst (asm) readHeaders_loop.simps) simp
  show ?case
  proof (cases "err = None \<and> headerRaw \<noteq> CRLF")
    case False
    with eq "1.prems"(2) show ?thesis by auto
  next
    case True
    show ?thesis
    proof (cases "parseHeader (TrimRight headerRaw CRLF)")
      case (Inl perr)
      then have "perr = ErrorString ''invalid header line''"
        by (auto simp: parseHeader_def Let_def split: if_splits)
      with True Inl eq show ?thesis by simp
    next
      case (Inr headerPair)
      obtain headerRaw' err' buffer' where r: "readUntil buffer headerSeparator = (headerRaw', err', buffer')"
        by (cases "readUntil buffer headerSeparator") auto
      have e': "err' = None \<or> err' = Some EOF"
        using readUntil_error [of buffer headerRaw' _ buffer'] r by (cases err') auto
      from True Inr r eq
      have "readHeaders_loop (headers(headerPair ! 0 \<mapsto> headerPair ! 1)) headerRaw' err' buffer'
          = (headers', Some e, rest)"
        by simp
      with "1.IH" [OF True refl Inr r [symmetric] refl] e' show ?thesis
        by (simp add: fun_upd_def)
    qed
  qed
qed

lemma readHeaders_error:
  "readHeaders buffer = (headers, Some e, rest) \<Longrightarrow> e = EOF \<or> e = ErrorString ''invalid header line''"
proof -
  assume a: "readHeaders buffer = (headers, Some e, rest)"
  obtain headerRaw err buffer' where r: "readUntil buffer headerSeparator = (headerRaw, err, buffer')"
    by (cases "readUntil buffer headerSeparator") auto
  have "err = None \<or> err = Some EOF"
    using readUntil_error [of buffer headerRaw _ buffer'] r by (cases err) auto
  moreover from a r have "readHeaders_loop Map.empty headerRaw err buffer' = (headers, Some e, rest)"
    by (simp add: readHeaders_def)
  ultimately show ?thesis by (rule readHeaders_loop_error [rotated])
qed

lemma uuid_Parse_error:
  "uuid_Parse s = Inl e \<Longrightarrow> e \<noteq> ErrorString ''malformed packet: identifier not knwon''"
  by (auto simp: uuid_Parse_def parseHyphenated_def decodeHexPairs_def split: if_splits option.splits)

lemma ParseUint_error:
  "ParseUint s bitSize = Inl e \<Longrightarrow> e \<noteq> ErrorString ''malformed packet: identifier not knwon''"
  by (auto simp: ParseUint_def split: if_splits sum.splits)

lemma json_Unmarshal_error:
  "json_Unmarshal dec data = Inl e \<Longrightarrow> e \<noteq> ErrorString ''malformed packet: identifier not knwon''"
  by (auto simp: json_Unmarshal_def split: if_splits sum.splits)

lemma known_identifier_error:
  assumes "readUntil buffer headerSeparator = (line, None, rest)"
    and "TrimRight line CRLF = requestActionIdentifier \<or> TrimRight line CRLF = responseActionIdentifier
         \<or> TrimRight line CRLF = discoveryIdentifier"
  shows "fst (snd (ParsePacket dec buffer)) \<noteq> Some (ErrorString ''malformed packet: identifier not knwon'')"
proof -
  consider (req) "TrimRight line CRLF = requestActionIdentifier"
    | (resp) "TrimRight line CRLF = responseActionIdentifier"
    | (disc) "TrimRight line CRLF = discoveryIdentifier"
    using assms(2) by blast
  then show ?thesis
  proof cases
    case resp
    with assms(1) show ?thesis
      by (simp add: ParsePacket_def identifiers_distinct)
  next
    case req
    obtain headers herr b2 where h: "readHeaders rest = (headers, herr, b2)"
      by (cases "readHeaders rest") auto
    have herr: "herr \<noteq> Some (ErrorString ''malformed packet: identifier not knwon'')"
      using readHeaders_error [of rest headers _ b2] h by (cases herr) auto
    show ?thesis
      using herr uuid_Parse_error ParseUint_error json_Unmarshal_error [of dec]
      by (auto simp: ParsePacket_def assms(1) req h identifiers_distinct
          split: option.splits sum.splits prod.splits)
  next
    case disc
    obtain headers herr b2 where h: "readHeaders rest = (headers, herr, b2)"
      by (cases "readHeaders rest") auto
    have herr: "herr \<noteq> Some (ErrorString ''malformed packet: identifier not knwon'')"
      using readHeaders_error [of rest headers _ b2] h by (cases herr) auto
    show ?thesis
      using herr ParseUint_error
      by (auto simp: ParsePacket_def assms(1) disc h identifiers_distinct
          split: option.splits sum.splits prod.splits)
  qed
qed

text \<open>
  Claim C9, as amended. \<open>ParsePacket\<close> reads the first line. If \<open>readUntil\<close> reports an
  error (the buffer ends before a CR LF), that error, \<open>io.EOF\<close>, is returned. Otherwise
  every trailing CR and LF byte is removed from the line and the rest is compared with
  the three identifiers; if it equals none of them, the error
  \<open>malformed packet: identifier not knwon\<close> is returned, and if it equals one of them,
  whatever \<open>ParsePacket\<close> returns, it is not that error.
\<close>

theorem identifier_dispatch:
  "(readUntil buffer headerSeparator = (line, Some e, rest) \<longrightarrow>
      ParsePacket dec buffer = (None, Some e, rest))
   \<and> (readUntil buffer headerSeparator = (line, None, rest)
        \<and> TrimRight line CRLF \<noteq> requestActionIdentifier
        \<and> TrimRight line CRLF \<noteq> responseActionIdentifier
        \<and> TrimRight line CRLF \<noteq> discoveryIdentifier \<longrightarrow>
      ParsePacket dec buffer = (None, Some (ErrorString ''malformed packet: identifier not knwon''), rest))
   \<and> (readUntil buffer headerSeparator = (line, None, rest)
        \<and> (TrimRight line CRLF = requestActionIdentifier
             \<or> TrimRight line CRLF = responseActionIdentifier
             \<or> TrimRight line CRLF = discoveryIdentifier) \<longrightarrow>
      fst (snd (ParsePacket dec buffer)) \<noteq> Some (ErrorString ''malformed packet: identifier not knwon''))"
proof (intro conjI impI)
  assume "readUntil buffer headerSeparator = (line, Some e, rest)"
  then show "ParsePacket dec buffer = (None, Some e, rest)"
    by (simp add: ParsePacket_def)
next
  assume "readUntil buffer headerSeparator = (line, None, rest)
        \<and> TrimRight line CRLF \<noteq> requestActionIdentifier
        \<and> TrimRight line CRLF \<noteq> responseActionIdentifier
        \<and> TrimRight line CRLF \<noteq> discoveryIdentifier"
  then show "ParsePacket dec buffer
      = (None, Some (ErrorString ''malformed packet: identifier not knwon''), rest)"
    by (simp add: ParsePacket_def)
next
  assume a: "readUntil buffer headerSeparator = (line, None, rest)
        \<and> (TrimRight line CRLF = requestActionIdentifier
             \<or> TrimRight line CRLF = responseActionIdentifier
             \<or> TrimRight line CRLF = discoveryIdentifier)"
  from a have "readUntil buffer headerSeparator = (line, None, rest)" by simp
  moreover from a have "TrimRight line CRLF = requestActionIdentifier
      \<or> TrimRight line CRLF = responseActionIdentifier
      \<or> TrimRight line CRLF = discoveryIdentifier" by simp
  ultimately show "fst (snd (ParsePacket dec buffer))
      \<noteq> Some (ErrorString ''malformed packet: identifier not knwon'')"
    by (rule known_identifier_error)
qed

theorem identifier_dispatch_witness:
  "readUntil ''DYLLABLE-DISCOVERY'' headerSeparator = (''DYLLABLE-DISCOVERY'', Some EOF, [])
   \<and> ParsePacket exampleDecoder ''DYLLABLE-DISCOVERY'' = (None, Some EOF, [])
   \<and> readUntil (''DYLLABLE-DYSCOVERY'' @ CRLF @ ''TYPE: DISCOVERY'' @ CRLF) headerSeparator
        = (''DYLLABLE-DYSCOVERY'' @ CRLF, None, ''TYPE: DISCOVERY'' @ CRLF)
   \<and> TrimRight (''DYLLABLE-DYSCOVERY'' @ CRLF) CRLF = ''DYLLABLE-DYSCOVERY''
   \<and> ParsePacket exampleDecoder (''DYLLABLE-DYSCOVERY'' @ CRLF @ ''TYPE: DISCOVERY'' @ CRLF)
        = (None, Some (ErrorString ''malformed packet: identifier not knwon''), ''TYPE: DISCOVERY'' @ CRLF)
   \<and> readUntil (''DYLLABLE-DISCOVERY'' @ CRLF @ ''TYPE: DISCOVERY'' @ CRLF) headerSeparator
        = (''DYLLABLE-DISCOVERY'' @ CRLF, None, ''TYPE: DISCOVERY'' @ CRLF)
   \<and> TrimRight (''DYLLABLE-DISCOVERY'' @ CRLF) CRLF = discoveryIdentifier
   \<and> fst (snd (ParsePacket exampleDecoder (''DYLLABLE-DISCOVERY'' @ CRLF @ ''TYPE: DISCOVERY'' @ CRLF)))
        \<noteq> Some (ErrorString ''malformed packet: identifier not knwon'')"
proof -
  have r1: "readUntil ''DYLLABLE-DISCOVERY'' headerSeparator = (''DYLLABLE-DISCOVERY'', Some EOF, [])"
    by (simp add: readUntil_def headerSeparator_def)
  have r2: "readUntil (''DYLLABLE-DYSCOVERY'' @ CRLF @ ''TYPE: DISCOVERY'' @ CRLF) headerSeparator
        = (''DYLLABLE-DYSCOVERY'' @ CRLF, None, ''TYPE: DISCOVERY'' @ CRLF)"
    by (simp add: readUntil_def headerSeparator_def)
  have t2: "TrimRight (''DYLLABLE-DYSCOVERY'' @ CRLF) CRLF = ''DYLLABLE-DYSCOVERY''"
    by (simp add: TrimRight_def)
  have n2: "''DYLLABLE-DYSCOVERY'' \<noteq> requestActionIdentifier"
    "''DYLLABLE-DYSCOVERY'' \<noteq> responseActionIdentifier"
    "''DYLLABLE-DYSCOVERY'' \<noteq> discoveryIdentifier"
    by (simp_all add: const_defs)
  have r3: "readUntil (''DYLLABLE-DISCOVERY'' @ CRLF @ ''TYPE: DISCOVERY'' @ CRLF) headerSeparator
        = (''DYLLABLE-DISCOVERY'' @ CRLF, None, ''TYPE: DISCOVERY'' @ CRLF)"
    by (simp add: readUntil_def headerSeparator_def)
  have t3: "TrimRight (''DYLLABLE-DISCOVERY'' @ CRLF) CRLF = discoveryIdentifier"
    by (simp add: TrimRight_def const_defs)
  from identifier_dispatch [of "''DYLLABLE-DISCOVERY''" "''DYLLABLE-DISCOVERY''" EOF "[]" exampleDecoder]
    r1
  have p1: "ParsePacket exampleDecoder ''DYLLABLE-DISCOVERY'' = (None, Some EOF, [])"
    by simp
  from identifier_dispatch [of "''DYLLABLE-DYSCOVERY'' @ CRLF @ ''TYPE: DISCOVERY'' @ CRLF"
      "''DYLLABLE-DYSCOVERY'' @ CRLF" EOF "''TYPE: DISCOVERY'' @ CRLF" exampleDecoder] r2 t2 n2
  have p2: "ParsePacket exampleDecoder (''DYLLABLE-DYSCOVERY'' @ CRLF @ ''TYPE: DISCOVERY'' @ CRLF)
        = (None, Some (ErrorString ''malformed packet: identifier not knwon''), ''TYPE: DISCOVERY'' @ CRLF)"
    by simp
  from identifier_dispatch [of "''DYLLABLE-DISCOVERY'' @ CRLF @ ''TYPE: DISCOVERY'' @ CRLF"
      "''DYLLABLE-DISCOVERY'' @ CRLF" EOF "''TYPE: DISCOVERY'' @ CRLF" exampleDecoder] r3 t3
  have p3: "fst (snd (ParsePacket exampleDecoder (''DYLLABLE-DISCOVERY'' @ CRLF @ ''TYPE: DISCOVERY'' @ CRLF)))
        \<noteq> Some (ErrorString ''malformed packet: identifier not knwon'')"
    by simp
  from r1 p1 r2 t2 p2 r3 t3 p3 show ?thesis by simp
qed

theorem identifier_dispatch_counterexample:
  "ParsePacket exampleDecoder ''DYLLABLE-DISCOVERY'' = (None, Some EOF, [])
   \<and> EOF \<noteq> ErrorString ''malformed packet: identifier not knwon''
   \<and> readUntil (''DYLLABLE-DISCOVERY'' @ [CHR 0x0D] @ CRLF @ ''TYPE: DISCOVERY'' @ CRLF
        @ ''HOST: 127.0.0.1:8400'' @ CRLF @ CRLF) headerSeparator
       = (''DYLLABLE-DISCOVERY'' @ [CHR 0x0D] @ CRLF, None,
          ''TYPE: DISCOVERY'' @ CRLF @ ''HOST: 127.0.0.1:8400'' @ CRLF @ CRLF)
   \<and> ''DYLLABLE-DISCOVERY'' @ [CHR 0x0D] @ CRLF \<noteq> discoveryIdentifier @ CRLF
   \<and> ParsePacket exampleDecoder (''DYLLABLE-DISCOVERY'' @ [CHR 0x0D] @ CRLF @ ''TYPE: DISCOVERY'' @ CRLF
        @ ''HOST: 127.0.0.1:8400'' @ CRLF @ CRLF)
       = (Some (Discovery \<lparr>Address = IPv4 127 0 0 1, Port = 8400, Type = requestDiscoveryType\<rparr>), None, [])"
  by (simp add: codec_defs const_defs lib_defs)

subsection \<open>Header blocks\<close>

text \<open>
  What \<open>readHeaders\<close> does on a block of header lines, according to what follows the
  lines: bytes with no CR LF, a blank line, or a line without \<open>": "\<close>. Every buffer has
  one of the three forms.
\<close>

lemma Index_None_iff:
  "Index s sep = None \<longleftrightarrow> \<not> sublist sep s"
proof (induction s)
  case Nil
  show ?case by simp
next
  case (Cons c cs)
  have "prefix sep (c # cs) \<longleftrightarrow> take (length sep) (c # cs) = sep"
    by (metis append_eq_conv_conj prefix_def take_is_prefix)
  with Cons show ?case
    by (simp add: sublist_Cons_right del: take_Suc_Cons)
qed

lemma parseHeader_no_separator:
  "\<not> sublist '': '' raw \<Longrightarrow> parseHeader raw = Inl (ErrorString ''invalid header line'')"
  using Index_None_iff [of raw "'': ''"]
  by (simp add: parseHeader_def SplitN_def)

lemma parseHeader_separator:
  "sublist '': '' raw \<Longrightarrow> \<exists>headerPair. parseHeader raw = Inr headerPair"
  using Index_None_iff [of raw "'': ''"]
  by (auto simp: parseHeader_def SplitN_def split: option.splits)

lemma sublist_snoc_other:
  assumes "c \<notin> set sep" and "sep \<noteq> []"
  shows "sublist sep (xs @ [c]) \<longleftrightarrow> sublist sep xs"
proof -
  have "sublist (rev sep) (c # rev xs) \<longleftrightarrow> sublist (rev sep) (rev xs)"
  proof -
    have "\<not> prefix (rev sep) (c # rev xs)"
    proof
      assume "prefix (rev sep) (c # rev xs)"
      then obtain zs where "c # rev xs = rev sep @ zs" by (auto simp: prefix_def)
      with assms(2) have "hd (rev sep) = c" by (cases "rev sep") auto
      with assms show False by (metis hd_in_set rev_is_Nil_conv set_rev)
    qed
    then show ?thesis by (simp add: sublist_Cons_right)
  qed
  then show ?thesis using sublist_rev [of sep "xs @ [c]"] sublist_rev [of sep xs] by simp
qed

lemma sublist_append_others:
  assumes "set t \<inter> set sep = {}" and "sep \<noteq> []"
  shows "sublist sep (xs @ t) \<longleftrightarrow> sublist sep xs"
  using assms(1)
proof (induction t rule: rev_induct)
  case Nil
  show ?case by simp
next
  case (snoc c t)
  then have "c \<notin> set sep" and "set t \<inter> set sep = {}" by auto
  with snoc.IH sublist_snoc_other [of c sep "xs @ t"] assms(2) show ?case by simp
qed

lemma TrimRight_decompose:
  "\<exists>t. s = TrimRight s cutset @ t \<and> set t \<subseteq> set cutset"
proof -
  have "rev s = takeWhile (\<lambda>c. c \<in> set cutset) (rev s) @ dropWhile (\<lambda>c. c \<in> set cutset) (rev s)"
    by simp
  then have "s = rev (dropWhile (\<lambda>c. c \<in> set cutset) (rev s)) @ rev (takeWhile (\<lambda>c. c \<in> set cutset) (rev s))"
    by (metis rev_append rev_rev_ident)
  moreover have "set (rev (takeWhile (\<lambda>c. c \<in> set cutset) (rev s))) \<subseteq> set cutset"
    by (auto dest: set_takeWhileD)
  ultimately show ?thesis unfolding TrimRight_def by blast
qed

lemma sublist_TrimRight:
  "sublist '': '' (TrimRight s CRLF) \<longleftrightarrow> sublist '': '' s"
proof -
  obtain t where t: "s = TrimRight s CRLF @ t" "set t \<subseteq> set CRLF"
    using TrimRight_decompose by blast
  from t(2) have "set t \<inter> set '': '' = {}" by auto
  then have "sublist '': '' (TrimRight s CRLF @ t) \<longleftrightarrow> sublist '': '' (TrimRight s CRLF)"
    by (rule sublist_append_others) simp
  with t(1) show ?thesis by simp
qed

lemma TrimRight_line:
  "TrimRight (l @ CRLF) CRLF = TrimRight l CRLF"
  by (simp add: TrimRight_def)

lemma parseHeader_line:
  "parseHeader (TrimRight (l @ CRLF) CRLF) = Inl e \<longleftrightarrow>
     \<not> sublist '': '' l \<and> e = ErrorString ''invalid header line''"
proof (cases "sublist '': '' l")
  case True
  then have "sublist '': '' (TrimRight l CRLF)" by (simp add: sublist_TrimRight)
  then obtain headerPair where "parseHeader (TrimRight l CRLF) = Inr headerPair"
    using parseHeader_separator by blast
  with True show ?thesis by (simp add: TrimRight_line)
next
  case False
  then have "\<not> sublist '': '' (TrimRight l CRLF)" by (simp add: sublist_TrimRight)
  then have "parseHeader (TrimRight l CRLF) = Inl (ErrorString ''invalid header line'')"
    by (rule parseHeader_no_separator)
  with False show ?thesis by (auto simp: TrimRight_line)
qed

lemma readUntil_line:
  assumes "\<not> sublist CRLF l"
  shows "readUntil (l @ CRLF @ rest) headerSeparator = (l @ CRLF, None, rest)"
proof -
  have "\<not> sublist CRLF (l @ [CHR 0x0D])"
  proof
    assume "sublist CRLF (l @ [CHR 0x0D])"
    then have "sublist (rev CRLF) (CHR 0x0D # rev l)"
      using sublist_rev [of CRLF "l @ [CHR 0x0D]"] by simp
    then have "sublist (rev CRLF) (rev l)"
      by (simp add: sublist_Cons_right)
    with assms show False using sublist_rev [of CRLF l] by simp
  qed
  then show ?thesis
    unfolding headerSeparator_def by (rule readUntil_first_delim)
qed

lemma readHeaders_loop_line:
  assumes "headerLine l"
  shows "\<exists>headers'. readHeaders_loop headers (l @ CRLF) None buffer
     = (case readUntil buffer headerSeparator of
          (headerRaw, err, buffer') \<Rightarrow> readHeaders_loop headers' headerRaw err buffer')"
proof -
  from assms have "sublist '': '' l" by (simp add: headerLine_def)
  then have "sublist '': '' (TrimRight l CRLF)" by (simp add: sublist_TrimRight)
  then obtain headerPair where "parseHeader (TrimRight l CRLF) = Inr headerPair"
    using parseHeader_separator by blast
  then have p: "parseHeader (TrimRight (l @ CRLF) CRLF) = Inr headerPair"
    by (simp add: TrimRight_line)
  from \<open>sublist '': '' l\<close> have "l \<noteq> []" by auto
  then have "l @ CRLF \<noteq> CRLF" by simp
  with p have "readHeaders_loop headers (l @ CRLF) None buffer
     = (case readUntil buffer headerSeparator of
          (headerRaw, err, buffer') \<Rightarrow>
            readHeaders_loop (headers(headerPair ! 0 \<mapsto> headerPair ! 1)) headerRaw err buffer')"
    by (subst readHeaders_loop.simps) simp
  then show ?thesis by blast
qed

lemma readHeaders_loop_lines:
  "list_all headerLine ls \<Longrightarrow>
   \<exists>headers'. (case readUntil (headerLines ls @ tail) headerSeparator of
                  (headerRaw, err, buffer') \<Rightarrow> readHeaders_loop headers headerRaw err buffer')
     = (case readUntil tail headerSeparator of
          (headerRaw, err, buffer') \<Rightarrow> readHeaders_loop headers' headerRaw err buffer')"
proof (induction ls arbitrary: headers)
  case Nil
  show ?case by (auto simp: headerLines_def)
next
  case (Cons l ls)
  from Cons.prems have l: "headerLine l" and ls: "list_all headerLine ls" by simp_all
  from l have "\<not> sublist CRLF l" by (simp add: headerLine_def)
  then have r: "readUntil (l @ CRLF @ headerLines ls @ tail) headerSeparator
      = (l @ CRLF, None, headerLines ls @ tail)"
    by (rule readUntil_line)
  obtain h1 where h1: "readHeaders_loop headers (l @ CRLF) None (headerLines ls @ tail)
     = (case readUntil (headerLines ls @ tail) headerSeparator of
          (headerRaw, err, buffer') \<Rightarrow> readHeaders_loop h1 headerRaw err buffer')"
    using readHeaders_loop_line [OF l] by blast
  obtain h2 where h2: "(case readUntil (headerLines ls @ tail) headerSeparator of
                  (headerRaw, err, buffer') \<Rightarrow> readHeaders_loop h1 headerRaw err buffer')
     = (case readUntil tail headerSeparator of
          (headerRaw, err, buffer') \<Rightarrow> readHeaders_loop h2 headerRaw err buffer')"
    using Cons.IH [OF ls] by blast
  have "headerLines (l # ls) @ tail = l @ CRLF @ headerLines ls @ tail"
    by (simp add: headerLines_def)
  with r h1 h2 show ?case by auto
qed

lemma readHeaders_exhausted:
  assumes "list_all headerLine ls" and "\<not> sublist CRLF tail"
  shows "snd (readHeaders (headerLines ls @ tail)) = (Some EOF, [])"
proof -
  obtain headers' where "readHeaders (headerLines ls @ tail)
     = (case readUntil tail headerSeparator of
          (headerRaw, err, buffer') \<Rightarrow> readHeaders_loop headers' headerRaw err buffer')"
    using readHeaders_loop_lines [OF assms(1)] unfolding readHeaders_def by blast
  moreover have "readUntil tail headerSeparator = (tail, Some EOF, [])"
    using assms(2) unfolding headerSeparator_def by (rule readUntil_no_delim)
  ultimately show ?thesis by (simp add: readHeaders_loop.simps)
qed

lemma readHeaders_blank_line:
  assumes "list_all headerLine ls"
  shows "snd (readHeaders (headerLines ls @ CRLF @ rest)) = (None, rest)"
proof -
  obtain headers' where "readHeaders (headerLines ls @ CRLF @ rest)
     = (case readUntil (CRLF @ rest) headerSeparator of
          (headerRaw, err, buffer') \<Rightarrow> readHeaders_loop headers' headerRaw err buffer')"
    using readHeaders_loop_lines [OF assms] unfolding readHeaders_def by blast
  moreover have "readUntil (CRLF @ rest) headerSeparator = (CRLF, None, rest)"
    using readUntil_line [of "[]" rest] by simp
  ultimately show ?thesis by (simp add: readHeaders_loop.simps)
qed

lemma readHeaders_invalid_line:
  assumes "list_all headerLine ls" and "\<not> sublist CRLF l" and "l \<noteq> []" and "\<not> sublist '': '' l"
  shows "snd (readHeaders (headerLines ls @ l @ CRLF @ rest))
     = (Some (ErrorString ''invalid header line''), rest)"
proof -
  obtain headers' where "readHeaders (headerLines ls @ l @ CRLF @ rest)
     = (case readUntil (l @ CRLF @ rest) headerSeparator of
          (headerRaw, err, buffer') \<Rightarrow> readHeaders_loop headers' headerRaw err buffer')"
    using readHeaders_loop_lines [OF assms(1)] unfolding readHeaders_def by blast
  moreover have "readUntil (l @ CRLF @ rest) headerSeparator = (l @ CRLF, None, rest)"
    using assms(2) by (rule readUntil_line)
  moreover have "parseHeader (TrimRight (l @ CRLF) CRLF) = Inl (ErrorString ''invalid header line'')"
    using assms(4) by (simp add: parseHeader_line)
  moreover from assms(3) have "l @ CRLF \<noteq> CRLF" by simp
  ultimately show ?thesis by (simp add: readHeaders_loop.simps)
qed

lemma first_CRLF:
  "sublist CRLF b \<Longrightarrow> \<exists>l rest. b = l @ CRLF @ rest \<and> \<not> sublist CRLF l"
proof (induction b)
  case Nil
  then show ?case by simp
next
  case (Cons x xs)
  show ?case
  proof (cases "prefix CRLF (x # xs)")
    case True
    then obtain rest where "x # xs = [] @ CRLF @ rest" by (auto simp: prefix_def)
    moreover have "\<not> sublist CRLF []" by simp
    ultimately show ?thesis by blast
  next
    case False
    with Cons.prems have "sublist CRLF xs" by (auto simp: sublist_Cons_right)
    then obtain l rest where xs: "xs = l @ CRLF @ rest" and l: "\<not> sublist CRLF l"
      using Cons.IH by blast
    have "\<not> prefix CRLF (x # l)"
    proof
      assume "prefix CRLF (x # l)"
      then have "prefix CRLF ((x # l) @ CRLF @ rest)"
        by (rule prefix_prefix)
      then have "prefix CRLF (x # xs)"
        by (simp only: xs append_Cons)
      with False show False by blast
    qed
    with l have "\<not> sublist CRLF (x # l)" by (auto simp: sublist_Cons_right)
    moreover from xs have "x # xs = (x # l) @ CRLF @ rest" by simp
    ultimately show ?thesis by blast
  qed
qed

lemma header_block_forms:
  "\<exists>ls tail. list_all headerLine ls \<and> b = headerLines ls @ tail
     \<and> (\<not> sublist CRLF tail
        \<or> (\<exists>rest. tail = CRLF @ rest)
        \<or> (\<exists>l rest. tail = l @ CRLF @ rest \<and> \<not> sublist CRLF l \<and> l \<noteq> [] \<and> \<not> sublist '': '' l))"
proof (induction b rule: length_induct)
  case (1 b)
  show ?case
  proof (cases "sublist CRLF b")
    case False
    then have "list_all headerLine [] \<and> b = headerLines [] @ b \<and> \<not> sublist CRLF b"
      by (simp add: headerLines_def)
    then show ?thesis by blast
  next
    case True
    then obtain l rest where b: "b = l @ CRLF @ rest" and l: "\<not> sublist CRLF l"
      using first_CRLF by blast
    show ?thesis
    proof (cases "l \<noteq> [] \<and> sublist '': '' l")
      case False
      then consider "l = []" | "l \<noteq> []" "\<not> sublist '': '' l" by blast
      then show ?thesis
      proof cases
        case 1
        with b have "list_all headerLine [] \<and> b = headerLines [] @ b \<and> b = CRLF @ rest"
          by (simp add: headerLines_def)
        then show ?thesis by blast
      next
        case 2
        with b l have "list_all headerLine [] \<and> b = headerLines [] @ b
            \<and> b = l @ CRLF @ rest \<and> \<not> sublist CRLF l \<and> l \<noteq> [] \<and> \<not> sublist '': '' l"
          by (simp add: headerLines_def)
        then show ?thesis by blast
      qed
    next
      case True
      with l have hl: "headerLine l" by (simp add: headerLine_def)
      from b have "length rest < length b" by simp
      with 1 obtain ls tail where ls: "list_all headerLine ls" and rest: "rest = headerLines ls @ tail"
        and tail: "\<not> sublist CRLF tail
          \<or> (\<exists>rest. tail = CRLF @ rest)
          \<or> (\<exists>l rest. tail = l @ CRLF @ rest \<and> \<not> sublist CRLF l \<and> l \<noteq> [] \<and> \<not> sublist '': '' l)"
        by blast
      from hl ls have "list_all headerLine (l # ls)" by simp
      moreover from b rest have "b = headerLines (l # ls) @ tail" by (simp add: headerLines_def)
      ultimately show ?thesis using tail by blast
    qed
  qed
qed

lemma example_broken_blocks:
  "readHeaders (''HOST: 127.0.0.1:8400'' @ CRLF @ ''nocolon'')
     = ([''HOST'' \<mapsto> ''127.0.0.1:8400''], Some EOF, [])"
  "readHeaders (''TYPE: DISCOVERY'' @ CRLF @ ''nocolon'' @ CRLF @ ''HOST: 127.0.0.1:8400'' @ CRLF @ CRLF)
     = ([''TYPE'' \<mapsto> ''DISCOVERY''], Some (ErrorString ''invalid header line''),
        ''HOST: 127.0.0.1:8400'' @ CRLF @ CRLF)"
  "readHeaders (''nocolon'' @ CRLF) = (Map.empty, Some (ErrorString ''invalid header line''), [])"
  "readHeaders ''nocolon'' = (Map.empty, Some EOF, [])"
  by (simp_all add: readHeaders_def readHeaders_loop.simps parseHeader_def readUntil_def
      headerSeparator_def SplitN_def TrimRight_def)

lemma example_header_lines:
  "headerLine ''HOST: 127.0.0.1:8400''"
  "headerLine ''TYPE: DISCOVERY''"
  "\<not> sublist CRLF ''nocolon''"
  "\<not> sublist '': '' ''nocolon''"
  by (simp_all add: headerLine_def sublist_Cons_right)

text \<open>
  Claim C5, as amended. Take a buffer whose first line is the identifier
  \<open>DYLLABLE-DISCOVERY\<close>, let \<open>b1\<close> be the bytes after that line, and let \<open>headers\<close>, \<open>herr\<close>
  and \<open>b2\<close> be what \<open>readHeaders\<close> returns on \<open>b1\<close>.

  \<^item> \<open>b1\<close> is a sequence of header lines (each without CR LF inside, containing \<open>": "\<close>
    and followed by CR LF) followed by one of: bytes with no CR LF; a blank line; a
    non-empty line that has no CR LF inside, does not contain \<open>": "\<close> and is followed by
    CR LF.
  \<^item> In the first case (the buffer ends before a blank line) the parse returns no packet
    and \<open>io.EOF\<close>, and consumes the buffer. In the third case it returns no packet and
    the error \<open>invalid header line\<close>, and stops after that line. In the second case
    \<open>readHeaders\<close> succeeds and stops after the blank line.
  \<^item> Whenever \<open>readHeaders\<close> fails, its error is one of these two and it is the error of
    the parse.
  \<^item> When \<open>readHeaders\<close> succeeds, the checks run in this order, and the first that fails
    decides the error: \<open>TYPE\<close> missing, \<open>HOST\<close> missing, \<open>HOST\<close> not a host:port pair, host
    not an IP literal (each with its own \<open>malformed packet\<close> message), port not a
    16-bit unsigned integer (the error of \<open>strconv.ParseUint\<close>), \<open>TYPE\<close> neither
    \<open>DISCOVERY\<close> nor \<open>RUNNING-APP\<close> (a \<open>malformed packet\<close> message that quotes the type).
  \<^item> In every case where one of the five conditions of the claim holds of the headers
    read, no packet is returned and the error is not nil.
\<close>

theorem discovery_errors:
  assumes "readUntil buffer headerSeparator = (line, None, b1)"
    and "TrimRight line CRLF = discoveryIdentifier"
    and "readHeaders b1 = (headers, herr, b2)"
  shows \<open>(\<exists>ls tail. list_all headerLine ls \<and> b1 = headerLines ls @ tail
         \<and> (\<not> sublist CRLF tail
            \<or> (\<exists>rest. tail = CRLF @ rest)
            \<or> (\<exists>l rest. tail = l @ CRLF @ rest \<and> \<not> sublist CRLF l \<and> l \<noteq> [] \<and> \<not> sublist '': '' l)))
    \<and> (list_all headerLine ls \<and> b1 = headerLines ls @ tail \<and> \<not> sublist CRLF tail \<longrightarrow>
         ParsePacket dec buffer = (None, Some EOF, []))
    \<and> (list_all headerLine ls \<and> b1 = headerLines ls @ l @ CRLF @ rest
          \<and> \<not> sublist CRLF l \<and> l \<noteq> [] \<and> \<not> sublist '': '' l \<longrightarrow>
         ParsePacket dec buffer = (None, Some (ErrorString ''invalid header line''), rest))
    \<and> (list_all headerLine ls \<and> b1 = headerLines ls @ CRLF @ rest \<longrightarrow> herr = None \<and> b2 = rest)
    \<and> (herr \<noteq> None \<longrightarrow> herr = Some EOF \<or> herr = Some (ErrorString ''invalid header line''))
    \<and> (herr \<noteq> None \<longrightarrow> ParsePacket dec buffer = (None, herr, b2))
    \<and> (herr = None \<and> headers ''TYPE'' = None \<longrightarrow>
         ParsePacket dec buffer = (None, Some (ErrorString ''malformed packet: "TYPE" header not found''), b2))
    \<and> (herr = None \<and> headers ''TYPE'' = Some t \<and> headers ''HOST'' = None \<longrightarrow>
         ParsePacket dec buffer = (None, Some (ErrorString ''malformed packet: "HOST" header not found''), b2))
    \<and> (herr = None \<and> headers ''TYPE'' = Some t \<and> headers ''HOST'' = Some h \<and> SplitHostPort h = Inl serr \<longrightarrow>
         ParsePacket dec buffer = (None, Some (ErrorString ''malformed packet: invalid ip/port pair''), b2))
    \<and> (herr = None \<and> headers ''TYPE'' = Some t \<and> headers ''HOST'' = Some h
          \<and> SplitHostPort h = Inr (host, portString) \<and> ParseIP host = None \<longrightarrow>
         ParsePacket dec buffer = (None, Some (ErrorString ''malformed packet: hostname is not supported''), b2))
    \<and> (herr = None \<and> headers ''TYPE'' = Some t \<and> headers ''HOST'' = Some h
          \<and> SplitHostPort h = Inr (host, portString) \<and> ParseIP host = Some ip
          \<and> ParseUint portString 16 = Inl perr \<longrightarrow>
         ParsePacket dec buffer = (None, Some perr, b2))
    \<and> (herr = None \<and> headers ''TYPE'' = Some t \<and> headers ''HOST'' = Some h
          \<and> SplitHostPort h = Inr (host, portString) \<and> ParseIP host = Some ip
          \<and> ParseUint portString 16 = Inr port
          \<and> t \<noteq> requestDiscoveryType \<and> t \<noteq> responseDiscoveryType \<longrightarrow>
         ParsePacket dec buffer
           = (None, Some (ErrorString (''malformed packet: type "'' @ t @ ''" not supported'')), b2))
    \<and> (\<not> discoveryHeadersOK headers \<longrightarrow>
         fst (ParsePacket dec buffer) = None \<and> fst (snd (ParsePacket dec buffer)) \<noteq> None)\<close>
proof -
  note parse = ParsePacket_discovery [OF assms, of dec]
  have forms: "\<exists>ls tail. list_all headerLine ls \<and> b1 = headerLines ls @ tail
         \<and> (\<not> sublist CRLF tail
            \<or> (\<exists>rest. tail = CRLF @ rest)
            \<or> (\<exists>l rest. tail = l @ CRLF @ rest \<and> \<not> sublist CRLF l \<and> l \<noteq> [] \<and> \<not> sublist '': '' l))"
    by (rule header_block_forms)
  have exhausted: "list_all headerLine ls \<and> b1 = headerLines ls @ tail \<and> \<not> sublist CRLF tail \<longrightarrow>
         ParsePacket dec buffer = (None, Some EOF, [])"
  proof
    assume a: "list_all headerLine ls \<and> b1 = headerLines ls @ tail \<and> \<not> sublist CRLF tail"
    then have "snd (readHeaders b1) = (Some EOF, [])"
      by (auto intro: readHeaders_exhausted)
    with assms(3) have "herr = Some EOF" and "b2 = []" by simp_all
    then show "ParsePacket dec buffer = (None, Some EOF, [])"
      unfolding parse by simp
  qed
  have invalid: "list_all headerLine ls \<and> b1 = headerLines ls @ l @ CRLF @ rest
          \<and> \<not> sublist CRLF l \<and> l \<noteq> [] \<and> \<not> sublist '': '' l \<longrightarrow>
         ParsePacket dec buffer = (None, Some (ErrorString ''invalid header line''), rest)"
  proof
    assume a: "list_all headerLine ls \<and> b1 = headerLines ls @ l @ CRLF @ rest
          \<and> \<not> sublist CRLF l \<and> l \<noteq> [] \<and> \<not> sublist '': '' l"
    then have "snd (readHeaders b1) = (Some (ErrorString ''invalid header line''), rest)"
      by (auto intro: readHeaders_invalid_line simp del: append_Cons append_Nil)
    with assms(3) have "herr = Some (ErrorString ''invalid header line'')" and "b2 = rest"
      by simp_all
    then show "ParsePacket dec buffer = (None, Some (ErrorString ''invalid header line''), rest)"
      unfolding parse by simp
  qed
  have blank: "list_all headerLine ls \<and> b1 = headerLines ls @ CRLF @ rest \<longrightarrow> herr = None \<and> b2 = rest"
  proof
    assume a: "list_all headerLine ls \<and> b1 = headerLines ls @ CRLF @ rest"
    then have "snd (readHeaders b1) = (None, rest)"
      by (auto intro: readHeaders_blank_line simp del: append_Cons append_Nil)
    with assms(3) show "herr = None \<and> b2 = rest" by simp
  qed
  have failure: "herr \<noteq> None \<longrightarrow> herr = Some EOF \<or> herr = Some (ErrorString ''invalid header line'')"
    using readHeaders_error [of b1 headers _ b2] assms(3) by (cases herr) auto
  have checks: \<open>(herr \<noteq> None \<longrightarrow> ParsePacket dec buffer = (None, herr, b2))
    \<and> (herr = None \<and> headers ''TYPE'' = None \<longrightarrow>
         ParsePacket dec buffer = (None, Some (ErrorString ''malformed packet: "TYPE" header not found''), b2))
    \<and> (herr = None \<and> headers ''TYPE'' = Some t \<and> headers ''HOST'' = None \<longrightarrow>
         ParsePacket dec buffer = (None, Some (ErrorString ''malformed packet: "HOST" header not found''), b2))
    \<and> (herr = None \<and> headers ''TYPE'' = Some t \<and> headers ''HOST'' = Some h \<and> SplitHostPort h = Inl serr \<longrightarrow>
         ParsePacket dec buffer = (None, Some (ErrorString ''malformed packet: invalid ip/port pair''), b2))
    \<and> (herr = None \<and> headers ''TYPE'' = Some t \<and> headers ''HOST'' = Some h
          \<and> SplitHostPort h = Inr (host, portString) \<and> ParseIP host = None \<longrightarrow>
         ParsePacket dec buffer = (None, Some (ErrorString ''malformed packet: hostname is not supported''), b2))
    \<and> (herr = None \<and> headers ''TYPE'' = Some t \<and> headers ''HOST'' = Some h
          \<and> SplitHostPort h = Inr (host, portString) \<and> ParseIP host = Some ip
          \<and> ParseUint portString 16 = Inl perr \<longrightarrow>
         ParsePacket dec buffer = (None, Some perr, b2))
    \<and> (herr = None \<and> headers ''TYPE'' = Some t \<and> headers ''HOST'' = Some h
          \<and> SplitHostPort h = Inr (host, portString) \<and> ParseIP host = Some ip
          \<and> ParseUint portString 16 = Inr port
          \<and> t \<noteq> requestDiscoveryType \<and> t \<noteq> responseDiscoveryType \<longrightarrow>
         ParsePacket dec buffer
           = (None, Some (ErrorString (''malformed packet: type "'' @ t @ ''" not supported'')), b2))
    \<and> (\<not> discoveryHeadersOK headers \<longrightarrow>
         fst (ParsePacket dec buffer) = None \<and> fst (snd (ParsePacket dec buffer)) \<noteq> None)\<close>
    unfolding parse discoveryHeadersOK_def
    by (auto split: option.splits sum.splits)
  show ?thesis
    apply (rule conjI, rule forms)
    apply (rule conjI, rule exhausted)
    apply (rule conjI, rule invalid)
    apply (rule conjI, rule blank)
    apply (rule conjI, rule failure)
    apply (rule checks)
    done
qed

theorem discovery_errors_witness:
  \<open>ParsePacket exampleDecoder (''DYLLABLE-DISCOVERY'' @ CRLF @ ''HOST: 127.0.0.1:8400'' @ CRLF)
     = (None, Some EOF, [])
   \<and> ParsePacket exampleDecoder (''DYLLABLE-DISCOVERY'' @ CRLF @ ''HOST: 127.0.0.1:8400'' @ CRLF @ CRLF)
     = (None, Some (ErrorString ''malformed packet: "TYPE" header not found''), [])
   \<and> ParsePacket exampleDecoder (''DYLLABLE-DISCOVERY'' @ CRLF @ ''TYPE: RUNNING-APP'' @ CRLF @ CRLF)
     = (None, Some (ErrorString ''malformed packet: "HOST" header not found''), [])
   \<and> ParsePacket exampleDecoder (''DYLLABLE-DISCOVERY'' @ CRLF @ ''TYPE: DISCOVERY'' @ CRLF
        @ ''HOST: 127.0.0.1'' @ CRLF @ CRLF)
     = (None, Some (ErrorString ''malformed packet: invalid ip/port pair''), [])
   \<and> ParsePacket exampleDecoder (''DYLLABLE-DISCOVERY'' @ CRLF @ ''TYPE: DISCOVERY'' @ CRLF
        @ ''HOST: localhost:8400'' @ CRLF @ CRLF)
     = (None, Some (ErrorString ''malformed packet: hostname is not supported''), [])
   \<and> ParsePacket exampleDecoder (''DYLLABLE-DISCOVERY'' @ CRLF @ ''TYPE: DISCOVERY'' @ CRLF
        @ ''HOST: 127.0.0.1:99999'' @ CRLF @ CRLF)
     = (None, Some (NumError ''ParseUint'' ''99999'' ErrRange), [])
   \<and> ParsePacket exampleDecoder (''DYLLABLE-DISCOVERY'' @ CRLF @ ''TYPE: INVALID'' @ CRLF
        @ ''HOST: 127.0.0.1:8400'' @ CRLF @ CRLF)
     = (None, Some (ErrorString ''malformed packet: type "INVALID" not supported''), [])
   \<and> \<not> discoveryHeadersOK [''TYPE'' \<mapsto> ''INVALID'', ''HOST'' \<mapsto> ''127.0.0.1:8400'']
   \<and> list_all headerLine [''HOST: 127.0.0.1:8400''] \<and> \<not> sublist CRLF ''nocolon''
   \<and> ParsePacket exampleDecoder (''DYLLABLE-DISCOVERY'' @ CRLF @ ''HOST: 127.0.0.1:8400'' @ CRLF @ ''nocolon'')
     = (None, Some EOF, [])
   \<and> list_all headerLine [''TYPE: DISCOVERY''] \<and> \<not> sublist '': '' ''nocolon''
   \<and> ParsePacket exampleDecoder (''DYLLABLE-DISCOVERY'' @ CRLF @ ''TYPE: DISCOVERY'' @ CRLF
        @ ''nocolon'' @ CRLF @ ''HOST: 127.0.0.1:8400'' @ CRLF @ CRLF)
     = (None, Some (ErrorString ''invalid header line''), ''HOST: 127.0.0.1:8400'' @ CRLF @ CRLF)
   \<and> ParsePacket exampleDecoder (''DYLLABLE-DISCOVERY'' @ CRLF @ ''nocolon'' @ CRLF)
     = (None, Some (ErrorString ''invalid header line''), [])
   \<and> ParsePacket exampleDecoder (''DYLLABLE-DISCOVERY'' @ CRLF @ ''nocolon'')
     = (None, Some EOF, [])\<close>
proof -
  note broken = example_broken_blocks
  note hl = example_header_lines
  note first = discovery_first_line
  note blocks = example_header_blocks
  have lib:
    "SplitHostPort ''127.0.0.1'' = Inl (AddrError ''missing port in address'' ''127.0.0.1'')"
    "SplitHostPort ''localhost:8400'' = Inr (''localhost'', ''8400'')"
    "SplitHostPort ''127.0.0.1:99999'' = Inr (''127.0.0.1'', ''99999'')"
    "SplitHostPort ''127.0.0.1:8400'' = Inr (''127.0.0.1'', ''8400'')"
    "ParseIP ''localhost'' = None"
    "ParseIP ''127.0.0.1'' = Some (IPv4 127 0 0 1)"
    "ParseUint ''99999'' 16 = Inl (NumError ''ParseUint'' ''99999'' ErrRange)"
    "ParseUint ''8400'' 16 = Inr 8400"
    by (simp_all add: lib_defs)
  have ty: "''INVALID'' \<noteq> requestDiscoveryType" "''INVALID'' \<noteq> responseDiscoveryType"
    by (simp_all add: const_defs)
  have bad: "\<not> discoveryHeadersOK [''TYPE'' \<mapsto> ''INVALID'', ''HOST'' \<mapsto> ''127.0.0.1:8400'']"
    using ty by (simp add: discoveryHeadersOK_def)
  from discovery_errors [OF first(1) first(2) blocks(1), where dec = exampleDecoder]
  have c1: "ParsePacket exampleDecoder (''DYLLABLE-DISCOVERY'' @ CRLF @ ''HOST: 127.0.0.1:8400'' @ CRLF)
     = (None, Some EOF, [])"
    by simp
  from discovery_errors [OF first(1) first(2) blocks(2), where dec = exampleDecoder]
  have c2: \<open>ParsePacket exampleDecoder (''DYLLABLE-DISCOVERY'' @ CRLF @ ''HOST: 127.0.0.1:8400'' @ CRLF @ CRLF)
     = (None, Some (ErrorString ''malformed packet: "TYPE" header not found''), [])\<close>
    by simp
  from discovery_errors [OF first(1) first(2) blocks(3), where dec = exampleDecoder and t = "''RUNNING-APP''"]
  have c3: \<open>ParsePacket exampleDecoder (''DYLLABLE-DISCOVERY'' @ CRLF @ ''TYPE: RUNNING-APP'' @ CRLF @ CRLF)
     = (None, Some (ErrorString ''malformed packet: "HOST" header not found''), [])\<close>
    by simp
  from discovery_errors [OF first(1) first(2) blocks(4), where dec = exampleDecoder and t = "''DISCOVERY''"
      and h = "''127.0.0.1''" and serr = "AddrError ''missing port in address'' ''127.0.0.1''"] lib
  have c4: \<open>ParsePacket exampleDecoder (''DYLLABLE-DISCOVERY'' @ CRLF @ ''TYPE: DISCOVERY'' @ CRLF
        @ ''HOST: 127.0.0.1'' @ CRLF @ CRLF)
     = (None, Some (ErrorString ''malformed packet: invalid ip/port pair''), [])\<close>
    by simp
  from discovery_errors [OF first(1) first(2) blocks(5), where dec = exampleDecoder and t = "''DISCOVERY''"
      and h = "''localhost:8400''" and host = "''localhost''" and portString = "''8400''"] lib
  have c5: \<open>ParsePacket exampleDecoder (''DYLLABLE-DISCOVERY'' @ CRLF @ ''TYPE: DISCOVERY'' @ CRLF
        @ ''HOST: localhost:8400'' @ CRLF @ CRLF)
     = (None, Some (ErrorString ''malformed packet: hostname is not supported''), [])\<close>
    by simp
  from discovery_errors [OF first(1) first(2) blocks(6), where dec = exampleDecoder and t = "''DISCOVERY''"
      and h = "''127.0.0.1:99999''" and perr = "NumError ''ParseUint'' ''99999'' ErrRange"
      and host = "''127.0.0.1''" and portString = "''99999''" and ip = "IPv4 127 0 0 1"] lib
  have c6: \<open>ParsePacket exampleDecoder (''DYLLABLE-DISCOVERY'' @ CRLF @ ''TYPE: DISCOVERY'' @ CRLF
        @ ''HOST: 127.0.0.1:99999'' @ CRLF @ CRLF)
     = (None, Some (NumError ''ParseUint'' ''99999'' ErrRange), [])\<close>
    by simp
  from discovery_errors [OF first(1) first(2) blocks(7), where dec = exampleDecoder and t = "''INVALID''"
      and h = "''127.0.0.1:8400''" and host = "''127.0.0.1''" and portString = "''8400''"
      and ip = "IPv4 127 0 0 1" and port = 8400] lib ty
  have c7: \<open>ParsePacket exampleDecoder (''DYLLABLE-DISCOVERY'' @ CRLF @ ''TYPE: INVALID'' @ CRLF
        @ ''HOST: 127.0.0.1:8400'' @ CRLF @ CRLF)
     = (None, Some (ErrorString ''malformed packet: type "INVALID" not supported''), [])\<close>
    by simp
  from discovery_errors [OF first(1) first(2) broken(1), where dec = exampleDecoder
      and ls = "[''HOST: 127.0.0.1:8400'']" and tail = "''nocolon''"] hl
  have c8: "ParsePacket exampleDecoder (''DYLLABLE-DISCOVERY'' @ CRLF @ ''HOST: 127.0.0.1:8400'' @ CRLF @ ''nocolon'')
     = (None, Some EOF, [])"
    by (simp add: headerLines_def)
  from discovery_errors [OF first(1) first(2) broken(2), where dec = exampleDecoder
      and ls = "[''TYPE: DISCOVERY'']" and l = "''nocolon''"
      and rest = "''HOST: 127.0.0.1:8400'' @ CRLF @ CRLF"] hl
  have c9: "ParsePacket exampleDecoder (''DYLLABLE-DISCOVERY'' @ CRLF @ ''TYPE: DISCOVERY'' @ CRLF
        @ ''nocolon'' @ CRLF @ ''HOST: 127.0.0.1:8400'' @ CRLF @ CRLF)
     = (None, Some (ErrorString ''invalid header line''), ''HOST: 127.0.0.1:8400'' @ CRLF @ CRLF)"
    by (simp add: headerLines_def)
  from discovery_errors [OF first(1) first(2) broken(3), where dec = exampleDecoder
      and ls = "[]" and l = "''nocolon''" and rest = "[]"] hl
  have c10: "ParsePacket exampleDecoder (''DYLLABLE-DISCOVERY'' @ CRLF @ ''nocolon'' @ CRLF)
     = (None, Some (ErrorString ''invalid header line''), [])"
    by (simp add: headerLines_def)
  from discovery_errors [OF first(1) first(2) broken(4), where dec = exampleDecoder
      and ls = "[]" and tail = "''nocolon''"] hl
  have c11: "ParsePacket exampleDecoder (''DYLLABLE-DISCOVERY'' @ CRLF @ ''nocolon'')
     = (None, Some EOF, [])"
    by (simp add: headerLines_def)
  from c1 c2 c3 c4 c5 c6 c7 bad c8 c9 c10 c11 hl show ?thesis by simp
qed

theorem discovery_errors_counterexample:
  \<open>readUntil (''DYLLABLE-DISCOVERY'' @ CRLF @ ''HOST: 127.0.0.1:8400'' @ CRLF) headerSeparator
     = (discoveryIdentifier @ CRLF, None, ''HOST: 127.0.0.1:8400'' @ CRLF)
   \<and> fst (readHeaders (''HOST: 127.0.0.1:8400'' @ CRLF)) ''TYPE'' = None
   \<and> ParsePacket exampleDecoder (''DYLLABLE-DISCOVERY'' @ CRLF @ ''HOST: 127.0.0.1:8400'' @ CRLF)
     = (None, Some EOF, [])
   \<and> EOF \<noteq> ErrorString ''malformed packet: "TYPE" header not found''
   \<and> ParsePacket exampleDecoder (''DYLLABLE-DISCOVERY'' @ CRLF @ ''TYPE: INVALID'' @ CRLF
        @ ''HOST: 127.0.0.1:99999'' @ CRLF @ CRLF)
     = (None, Some (NumError ''ParseUint'' ''99999'' ErrRange), [])
   \<and> NumError ''ParseUint'' ''99999'' ErrRange
     \<noteq> ErrorString ''malformed packet: type "INVALID" not supported''\<close>
  by (simp add: codec_defs const_defs lib_defs)

text \<open>
  Claim C6, as amended. Take a buffer whose first line is the identifier
  \<open>DYLLABLE-ACTION-REQUEST\<close>. The parse returns no packet and an error unless the header
  block is read without error and holds a \<open>REQUEST-UUID\<close> header in one of the four forms
  \<open>uuid.Parse\<close> accepts (the 36-character hyphenated form; that form after
  \<open>urn:uuid:\<close>; that form after one more leading character and before one more; 32
  hexadecimal digits) and an \<open>ACTION-ID\<close> header made of decimal digits whose value is at
  most 255. A missing header is reported by a \<open>malformed packet\<close> message that names it;
  a rejected identifier or action number by the error of \<open>uuid.Parse\<close> or of
  \<open>strconv.ParseUint\<close>.
\<close>

theorem request_requirements:
  assumes "readUntil buffer headerSeparator = (line, None, b1)"
    and "TrimRight line CRLF = requestActionIdentifier"
    and "readHeaders b1 = (headers, herr, b2)"
  shows \<open>(herr \<noteq> None \<or> \<not> requestHeadersOK headers \<longrightarrow>
         fst (ParsePacket dec buffer) = None \<and> fst (snd (ParsePacket dec buffer)) \<noteq> None)
    \<and> (herr \<noteq> None \<longrightarrow> ParsePacket dec buffer = (None, herr, b2))
    \<and> (herr = None \<and> headers ''REQUEST-UUID'' = None \<longrightarrow>
         ParsePacket dec buffer
           = (None, Some (ErrorString ''malformed packet: "REQUEST-UUID" header not found''), b2))
    \<and> (herr = None \<and> headers ''REQUEST-UUID'' = Some uuidText \<and> uuid_Parse uuidText = Inl uerr \<longrightarrow>
         ParsePacket dec buffer = (None, Some uerr, b2))
    \<and> (herr = None \<and> headers ''REQUEST-UUID'' = Some uuidText \<and> uuid_Parse uuidText = Inr u
          \<and> headers ''ACTION-ID'' = None \<longrightarrow>
         ParsePacket dec buffer
           = (None, Some (ErrorString ''malformed packet: "ACTION-ID" header not found''), b2))
    \<and> (herr = None \<and> headers ''REQUEST-UUID'' = Some uuidText \<and> uuid_Parse uuidText = Inr u
          \<and> headers ''ACTION-ID'' = Some actionText \<and> ParseUint actionText 8 = Inl aerr \<longrightarrow>
         ParsePacket dec buffer = (None, Some aerr, b2))\<close>
proof -
  note P = ParsePacket_request [OF assms, of dec]
  have ok: "fst (ParsePacket dec buffer) = None \<and> fst (snd (ParsePacket dec buffer)) \<noteq> None"
    if "herr \<noteq> None \<or> \<not> requestHeadersOK headers"
  proof (cases "herr \<noteq> None")
    case True
    then show ?thesis unfolding P by simp
  next
    case False
    with that have bad: "\<not> requestHeadersOK headers" by simp
    show ?thesis
    proof (cases "headers ''REQUEST-UUID''")
      case None
      with False show ?thesis unfolding P by simp
    next
      case (Some uuidText)
      show ?thesis
      proof (cases "uuid_Parse uuidText")
        case (Inl uerr)
        with False Some show ?thesis unfolding P by simp
      next
        case (Inr u)
        then have form: "uuidTextForm uuidText"
          using uuid_Parse_ok [of uuidText] by simp
        show ?thesis
        proof (cases "headers ''ACTION-ID''")
          case None
          with False Some Inr show ?thesis unfolding P by simp
        next
          case aSome: (Some actionText)
          show ?thesis
          proof (cases "ParseUint actionText 8")
            case aInl: (Inl aerr)
            with False Some Inr aSome show ?thesis unfolding P by simp
          next
            case aInr: (Inr a)
            from ParseUint_ok [OF aInr] Some form aSome aInr have "requestHeadersOK headers"
              by (simp add: requestHeadersOK_def)
            with bad show ?thesis by simp
          qed
        qed
      qed
    qed
  qed
  show ?thesis
    using ok unfolding P by (auto split: option.splits sum.splits)
qed

theorem request_requirements_witness:
  \<open>ParsePacket exampleDecoder (''DYLLABLE-ACTION-REQUEST'' @ CRLF
        @ ''REQUEST-UUID: 00112233-4455-6677-8899-aabbccddeeff'' @ CRLF @ ''ACTION-ID: 100'')
     = (None, Some EOF, [])
   \<and> ParsePacket exampleDecoder (''DYLLABLE-ACTION-REQUEST'' @ CRLF @ ''ACTION-ID: 100'' @ CRLF @ CRLF)
     = (None, Some (ErrorString ''malformed packet: "REQUEST-UUID" header not found''), [])
   \<and> ParsePacket exampleDecoder (''DYLLABLE-ACTION-REQUEST'' @ CRLF @ ''REQUEST-UUID: 1'' @ CRLF
        @ ''ACTION-ID: 100'' @ CRLF @ CRLF)
     = (None, Some (InvalidLengthError 1), [])
   \<and> ParsePacket exampleDecoder (''DYLLABLE-ACTION-REQUEST'' @ CRLF
        @ ''REQUEST-UUID: 00112233-4455-6677-8899-aabbccddeeff'' @ CRLF @ CRLF)
     = (None, Some (ErrorString ''malformed packet: "ACTION-ID" header not found''), [])
   \<and> ParsePacket exampleDecoder (''DYLLABLE-ACTION-REQUEST'' @ CRLF
        @ ''REQUEST-UUID: 00112233-4455-6677-8899-aabbccddeeff'' @ CRLF @ ''ACTION-ID: 256'' @ CRLF @ CRLF)
     = (None, Some (NumError ''ParseUint'' ''256'' ErrRange), [])
   \<and> \<not> requestHeadersOK [''REQUEST-UUID'' \<mapsto> ''1'', ''ACTION-ID'' \<mapsto> ''100'']
   \<and> fst (snd (ParsePacket exampleDecoder (''DYLLABLE-ACTION-REQUEST'' @ CRLF @ ''REQUEST-UUID: 1'' @ CRLF
        @ ''ACTION-ID: 100'' @ CRLF @ CRLF))) \<noteq> None\<close>
proof -
  note first = request_first_line
  note blocks = example_request_blocks
  note vals = example_request_values
  have bad: "\<not> requestHeadersOK [''REQUEST-UUID'' \<mapsto> ''1'', ''ACTION-ID'' \<mapsto> ''100'']"
    by (simp add: requestHeadersOK_def uuidTextForm_def)
  from request_requirements [OF first(1) first(2) blocks(5), where dec = exampleDecoder]
  have c1: "ParsePacket exampleDecoder (''DYLLABLE-ACTION-REQUEST'' @ CRLF
        @ ''REQUEST-UUID: 00112233-4455-6677-8899-aabbccddeeff'' @ CRLF @ ''ACTION-ID: 100'')
     = (None, Some EOF, [])"
    by simp
  from request_requirements [OF first(1) first(2) blocks(4), where dec = exampleDecoder]
  have c2: \<open>ParsePacket exampleDecoder (''DYLLABLE-ACTION-REQUEST'' @ CRLF @ ''ACTION-ID: 100'' @ CRLF @ CRLF)
     = (None, Some (ErrorString ''malformed packet: "REQUEST-UUID" header not found''), [])\<close>
    by simp
  from request_requirements [OF first(1) first(2) blocks(2), where dec = exampleDecoder
      and uuidText = "''1''" and uerr = "InvalidLengthError 1"] vals
  have c3: "ParsePacket exampleDecoder (''DYLLABLE-ACTION-REQUEST'' @ CRLF @ ''REQUEST-UUID: 1'' @ CRLF
        @ ''ACTION-ID: 100'' @ CRLF @ CRLF)
     = (None, Some (InvalidLengthError 1), [])"
    by simp
  from request_requirements [OF first(1) first(2) blocks(1), where dec = exampleDecoder
      and uuidText = "''00112233-4455-6677-8899-aabbccddeeff''" and u = exampleUUID] vals
  have c4: \<open>ParsePacket exampleDecoder (''DYLLABLE-ACTION-REQUEST'' @ CRLF
        @ ''REQUEST-UUID: 00112233-4455-6677-8899-aabbccddeeff'' @ CRLF @ CRLF)
     = (None, Some (ErrorString ''malformed packet: "ACTION-ID" header not found''), [])\<close>
    by simp
  from request_requirements [OF first(1) first(2) blocks(3), where dec = exampleDecoder
      and uuidText = "''00112233-4455-6677-8899-aabbccddeeff''" and u = exampleUUID
      and actionText = "''256''" and aerr = "NumError ''ParseUint'' ''256'' ErrRange"] vals
  have c5: "ParsePacket exampleDecoder (''DYLLABLE-ACTION-REQUEST'' @ CRLF
        @ ''REQUEST-UUID: 00112233-4455-6677-8899-aabbccddeeff'' @ CRLF @ ''ACTION-ID: 256'' @ CRLF @ CRLF)
     = (None, Some (NumError ''ParseUint'' ''256'' ErrRange), [])"
    by simp
  from request_requirements [OF first(1) first(2) blocks(2), where dec = exampleDecoder] bad
  have c6: "fst (snd (ParsePacket exampleDecoder (''DYLLABLE-ACTION-REQUEST'' @ CRLF @ ''REQUEST-UUID: 1'' @ CRLF
        @ ''ACTION-ID: 100'' @ CRLF @ CRLF))) \<noteq> None"
    by simp
  from c1 c2 c3 c4 c5 bad c6 show ?thesis by simp
qed

theorem request_requirements_counterexample:
  "length ''00112233445566778899aabbccddeeff'' = 32
   \<and> ParsePacket exampleDecoder (''DYLLABLE-ACTION-REQUEST'' @ CRLF
        @ ''REQUEST-UUID: 00112233445566778899aabbccddeeff'' @ CRLF @ ''ACTION-ID: 10'' @ CRLF @ CRLF)
      = (Some (RequestAction \<lparr>RequestUUID = exampleUUID, ActionId = 10, Parameters = None\<rparr>), None, [])
   \<and> ParsePacket exampleDecoder (''DYLLABLE-ACTION-REQUEST'' @ CRLF
        @ ''REQUEST-UUID: urn:uuid:00112233-4455-6677-8899-aabbccddeeff'' @ CRLF @ ''ACTION-ID: 10'' @ CRLF @ CRLF)
      = (Some (RequestAction \<lparr>RequestUUID = exampleUUID, ActionId = 10, Parameters = None\<rparr>), None, [])"
  by (simp add: codec_defs const_defs lib_defs)

text \<open>
  Claim C7, as amended. Take a \<open>DYLLABLE-ACTION-REQUEST\<close> packet whose header block is read
  without error and holds a \<open>REQUEST-UUID\<close> and an \<open>ACTION-ID\<close> that parse. If the next
  \<open>readUntil\<close> reports the end of the buffer, the parse succeeds with no parameters (the
  status is not returned). If it returns a line, then: when the line is the JSON value
  \<open>null\<close> the parse succeeds with no parameters; when the decoder accepts the line the
  parse succeeds with the decoded map as parameters; when the decoder rejects it the
  decoder's error is returned with no packet.
\<close>

theorem request_body:
  assumes "readUntil buffer headerSeparator = (line, None, b1)"
    and "TrimRight line CRLF = requestActionIdentifier"
    and "readHeaders b1 = (headers, None, b2)"
    and "headers ''REQUEST-UUID'' = Some uuidText" and "uuid_Parse uuidText = Inr u"
    and "headers ''ACTION-ID'' = Some actionText" and "ParseUint actionText 8 = Inr a"
    and "readUntil b2 headerSeparator = (body, berr, b3)"
  shows "(berr \<noteq> None \<longrightarrow>
           ParsePacket dec buffer
             = (Some (RequestAction \<lparr>RequestUUID = u, ActionId = word_of_nat a, Parameters = None\<rparr>),
                None, b3))
    \<and> (berr = None \<and> trimJSONSpace body = ''null'' \<longrightarrow>
           ParsePacket dec buffer
             = (Some (RequestAction \<lparr>RequestUUID = u, ActionId = word_of_nat a, Parameters = None\<rparr>),
                None, b3))
    \<and> (berr = None \<and> trimJSONSpace body \<noteq> ''null'' \<and> dec body = Inr m \<longrightarrow>
           ParsePacket dec buffer
             = (Some (RequestAction \<lparr>RequestUUID = u, ActionId = word_of_nat a, Parameters = Some m\<rparr>),
                None, b3))
    \<and> (berr = None \<and> trimJSONSpace body \<noteq> ''null'' \<and> dec body = Inl jerr \<longrightarrow>
           ParsePacket dec buffer = (None, Some (JSONError jerr), b3))"
  unfolding ParsePacket_request [OF assms(1-3)]
  by (simp add: assms json_Unmarshal_def)

theorem request_body_witness:
  "ParsePacket exampleDecoder (''DYLLABLE-ACTION-REQUEST'' @ CRLF
        @ ''REQUEST-UUID: 00112233-4455-6677-8899-aabbccddeeff'' @ CRLF @ ''ACTION-ID: 7'' @ CRLF @ CRLF)
     = (Some (RequestAction \<lparr>RequestUUID = exampleUUID, ActionId = 7, Parameters = None\<rparr>), None, [])
   \<and> ParsePacket exampleDecoder (''DYLLABLE-ACTION-REQUEST'' @ CRLF
        @ ''REQUEST-UUID: 00112233-4455-6677-8899-aabbccddeeff'' @ CRLF @ ''ACTION-ID: 7'' @ CRLF @ CRLF
        @ ''{}'')
     = (Some (RequestAction \<lparr>RequestUUID = exampleUUID, ActionId = 7, Parameters = None\<rparr>), None, [])
   \<and> ParsePacket exampleDecoder (''DYLLABLE-ACTION-REQUEST'' @ CRLF
        @ ''REQUEST-UUID: 00112233-4455-6677-8899-aabbccddeeff'' @ CRLF @ ''ACTION-ID: 7'' @ CRLF @ CRLF
        @ ''null'' @ CRLF)
     = (Some (RequestAction \<lparr>RequestUUID = exampleUUID, ActionId = 7, Parameters = None\<rparr>), None, [])
   \<and> ParsePacket exampleDecoder (''DYLLABLE-ACTION-REQUEST'' @ CRLF
        @ ''REQUEST-UUID: 00112233-4455-6677-8899-aabbccddeeff'' @ CRLF @ ''ACTION-ID: 7'' @ CRLF @ CRLF
        @ ''{}'' @ CRLF @ CRLF)
     = (Some (RequestAction \<lparr>RequestUUID = exampleUUID, ActionId = 7, Parameters = Some ()\<rparr>), None, CRLF)
   \<and> ParsePacket exampleDecoder (''DYLLABLE-ACTION-REQUEST'' @ CRLF
        @ ''REQUEST-UUID: 00112233-4455-6677-8899-aabbccddeeff'' @ CRLF @ ''ACTION-ID: 7'' @ CRLF @ CRLF
        @ ''{key}'' @ CRLF @ CRLF)
     = (None, Some (JSONError (SyntaxError ''invalid character'')), CRLF)"
proof -
  note first = request_first_line
  note block = example_request_blocks(6)
  note vals = example_request_values
  have hs: "[''REQUEST-UUID'' \<mapsto> ''00112233-4455-6677-8899-aabbccddeeff'', ''ACTION-ID'' \<mapsto> ''7''] ''REQUEST-UUID''
      = Some ''00112233-4455-6677-8899-aabbccddeeff''"
    "[''REQUEST-UUID'' \<mapsto> ''00112233-4455-6677-8899-aabbccddeeff'', ''ACTION-ID'' \<mapsto> ''7''] ''ACTION-ID''
      = Some ''7''"
    by simp_all
  note R = request_body [OF first(1) first(2) block hs(1) vals(1) hs(2) vals(5), where dec = exampleDecoder]
  from R [OF example_bodies(1)]
  have c1: "ParsePacket exampleDecoder (''DYLLABLE-ACTION-REQUEST'' @ CRLF
        @ ''REQUEST-UUID: 00112233-4455-6677-8899-aabbccddeeff'' @ CRLF @ ''ACTION-ID: 7'' @ CRLF @ CRLF)
     = (Some (RequestAction \<lparr>RequestUUID = exampleUUID, ActionId = 7, Parameters = None\<rparr>), None, [])"
    by simp
  from R [OF example_bodies(2)]
  have c2: "ParsePacket exampleDecoder (''DYLLABLE-ACTION-REQUEST'' @ CRLF
        @ ''REQUEST-UUID: 00112233-4455-6677-8899-aabbccddeeff'' @ CRLF @ ''ACTION-ID: 7'' @ CRLF @ CRLF
        @ ''{}'')
     = (Some (RequestAction \<lparr>RequestUUID = exampleUUID, ActionId = 7, Parameters = None\<rparr>), None, [])"
    by simp
  from R [OF example_bodies(3)] example_decodings
  have c3: "ParsePacket exampleDecoder (''DYLLABLE-ACTION-REQUEST'' @ CRLF
        @ ''REQUEST-UUID: 00112233-4455-6677-8899-aabbccddeeff'' @ CRLF @ ''ACTION-ID: 7'' @ CRLF @ CRLF
        @ ''null'' @ CRLF)
     = (Some (RequestAction \<lparr>RequestUUID = exampleUUID, ActionId = 7, Parameters = None\<rparr>), None, [])"
    by simp
  from R [OF example_bodies(4), where m = "()"] example_decodings
  have c4: "ParsePacket exampleDecoder (''DYLLABLE-ACTION-REQUEST'' @ CRLF
        @ ''REQUEST-UUID: 00112233-4455-6677-8899-aabbccddeeff'' @ CRLF @ ''ACTION-ID: 7'' @ CRLF @ CRLF
        @ ''{}'' @ CRLF @ CRLF)
     = (Some (RequestAction \<lparr>RequestUUID = exampleUUID, ActionId = 7, Parameters = Some ()\<rparr>), None, CRLF)"
    by simp
  from R [OF example_bodies(5), where jerr = "SyntaxError ''invalid character''"] example_decodings
  have c5: "ParsePacket exampleDecoder (''DYLLABLE-ACTION-REQUEST'' @ CRLF
        @ ''REQUEST-UUID: 00112233-4455-6677-8899-aabbccddeeff'' @ CRLF @ ''ACTION-ID: 7'' @ CRLF @ CRLF
        @ ''{key}'' @ CRLF @ CRLF)
     = (None, Some (JSONError (SyntaxError ''invalid character'')), CRLF)"
    by simp
  from c1 c2 c3 c4 c5 show ?thesis by simp
qed

theorem request_body_counterexample:
  "readUntil (''null'' @ CRLF) headerSeparator = (''null'' @ CRLF, None, [])
   \<and> ParsePacket exampleDecoder (''DYLLABLE-ACTION-REQUEST'' @ CRLF
        @ ''REQUEST-UUID: 00112233-4455-6677-8899-aabbccddeeff'' @ CRLF @ ''ACTION-ID: 7'' @ CRLF @ CRLF
        @ ''null'' @ CRLF)
     = (Some (RequestAction \<lparr>RequestUUID = exampleUUID, ActionId = 7, Parameters = None\<rparr>), None, [])"
  by (simp add: codec_defs const_defs lib_defs)

section \<open>Properties of the serializer\<close>

text \<open>
  Claim C3. The serialized form of a \<open>RequestActionPacket\<close> and of a
  \<open>ResponseActionPacket\<close> is the identifier line and the two header lines, then one blank
  line; when the body map is nil nothing follows, and when it is a map (the empty map
  too) its JSON encoding follows on a line of its own, and then one more blank line. In
  particular, when the parameters are encoded as
  \<open>{"key":"value","key2":10,"key3":true,"key4":15.7}\<close>, the request with action id 1
  and identifier \<open>u\<close> is serialized as the bytes the claim gives.
\<close>

theorem action_packet_layout:
  \<open>(Parameters p = None \<longrightarrow>
      RequestActionPacket_String enc p
        = Inr (''DYLLABLE-ACTION-REQUEST'' @ CRLF
               @ ''REQUEST-UUID: '' @ UUID_String (RequestUUID p) @ CRLF
               @ ''ACTION-ID: '' @ FormatUint (unat (ActionId p)) @ CRLF
               @ CRLF))
   \<and> (Parameters p = Some m \<and> enc m = Inr json \<longrightarrow>
      RequestActionPacket_String enc p
        = Inr (''DYLLABLE-ACTION-REQUEST'' @ CRLF
               @ ''REQUEST-UUID: '' @ UUID_String (RequestUUID p) @ CRLF
               @ ''ACTION-ID: '' @ FormatUint (unat (ActionId p)) @ CRLF
               @ CRLF
               @ json @ CRLF
               @ CRLF))
   \<and> (Content q = None \<longrightarrow>
      ResponseActionPacket_String enc q
        = Inr (''DYLLABLE-ACTION-RESPONSE'' @ CRLF
               @ ''REQUEST-UUID: '' @ UUID_String (RequestUUID' q) @ CRLF
               @ ''APPROVED: '' @ (if Approved q then ''True'' else ''False'') @ CRLF
               @ CRLF))
   \<and> (Content q = Some m \<and> enc m = Inr json \<longrightarrow>
      ResponseActionPacket_String enc q
        = Inr (''DYLLABLE-ACTION-RESPONSE'' @ CRLF
               @ ''REQUEST-UUID: '' @ UUID_String (RequestUUID' q) @ CRLF
               @ ''APPROVED: '' @ (if Approved q then ''True'' else ''False'') @ CRLF
               @ CRLF
               @ json @ CRLF
               @ CRLF))
   \<and> (enc m = Inr ''{"key":"value","key2":10,"key3":true,"key4":15.7}'' \<longrightarrow>
      RequestActionPacket_String enc (NewRequestActionPacket u 1 (Some m))
        = Inr (''DYLLABLE-ACTION-REQUEST'' @ CRLF
               @ ''REQUEST-UUID: '' @ UUID_String u @ CRLF
               @ ''ACTION-ID: 1'' @ CRLF
               @ CRLF
               @ ''{"key":"value","key2":10,"key3":true,"key4":15.7}'' @ CRLF
               @ CRLF))\<close>
  by (simp add: RequestActionPacket_String_def ResponseActionPacket_String_def
      NewRequestActionPacket_def json_Marshal_def const_defs FormatUint.simps digitChar_def)

theorem action_packet_layout_witness:
  \<open>RequestActionPacket_String exampleEncoder (NewRequestActionPacket exampleUUID 1 None)
     = Inr (''DYLLABLE-ACTION-REQUEST'' @ CRLF
            @ ''REQUEST-UUID: 00112233-4455-6677-8899-aabbccddeeff'' @ CRLF
            @ ''ACTION-ID: 1'' @ CRLF
            @ CRLF)
   \<and> RequestActionPacket_String exampleEncoder (NewRequestActionPacket exampleUUID 255 (Some ()))
     = Inr (''DYLLABLE-ACTION-REQUEST'' @ CRLF
            @ ''REQUEST-UUID: 00112233-4455-6677-8899-aabbccddeeff'' @ CRLF
            @ ''ACTION-ID: 255'' @ CRLF
            @ CRLF
            @ ''{}'' @ CRLF
            @ CRLF)
   \<and> ResponseActionPacket_String exampleEncoder (NewResponseActionPacket exampleUUID True None)
     = Inr (''DYLLABLE-ACTION-RESPONSE'' @ CRLF
            @ ''REQUEST-UUID: 00112233-4455-6677-8899-aabbccddeeff'' @ CRLF
            @ ''APPROVED: True'' @ CRLF
            @ CRLF)
   \<and> ResponseActionPacket_String exampleEncoder (NewResponseActionPacket exampleUUID False (Some ()))
     = Inr (''DYLLABLE-ACTION-RESPONSE'' @ CRLF
            @ ''REQUEST-UUID: 00112233-4455-6677-8899-aabbccddeeff'' @ CRLF
            @ ''APPROVED: False'' @ CRLF
            @ CRLF
            @ ''{}'' @ CRLF
            @ CRLF)
   \<and> RequestActionPacket_String (\<lambda>m :: unit. Inr ''{"key":"value","key2":10,"key3":true,"key4":15.7}'')
        (NewRequestActionPacket exampleUUID 1 (Some ()))
     = Inr (''DYLLABLE-ACTION-REQUEST'' @ CRLF
            @ ''REQUEST-UUID: 00112233-4455-6677-8899-aabbccddeeff'' @ CRLF
            @ ''ACTION-ID: 1'' @ CRLF
            @ CRLF
            @ ''{"key":"value","key2":10,"key3":true,"key4":15.7}'' @ CRLF
            @ CRLF)\<close>
proof -
  have u: "UUID_String exampleUUID = ''00112233-4455-6677-8899-aabbccddeeff''"
    by (simp add: UUID_String_def hex_Encode_def hexDigit_def)
  have f: "FormatUint (Suc 0) = ''1''" "FormatUint 255 = ''255''"
    by (simp_all add: FormatUint.simps digitChar_def)
  note L1 = action_packet_layout [where enc = exampleEncoder
      and p = "NewRequestActionPacket exampleUUID 1 None"
      and q = "NewResponseActionPacket exampleUUID True None"
      and m = "()" and json = "''{}''" and u = exampleUUID]
  note L2 = action_packet_layout [where enc = exampleEncoder
      and p = "NewRequestActionPacket exampleUUID 255 (Some ())"
      and q = "NewResponseActionPacket exampleUUID False (Some ())"
      and m = "()" and json = "''{}''" and u = exampleUUID]
  note L3 = action_packet_layout [where
          enc = \<open>\<lambda>m :: unit. Inr ''{"key":"value","key2":10,"key3":true,"key4":15.7}''\<close>
      and p = "NewRequestActionPacket exampleUUID 1 None"
      and q = "NewResponseActionPacket exampleUUID True None"
      and m = "()" and json = "''{}''" and u = exampleUUID]
  from L1 have c1: "RequestActionPacket_String exampleEncoder (NewRequestActionPacket exampleUUID 1 None)
     = Inr (''DYLLABLE-ACTION-REQUEST'' @ CRLF
            @ ''REQUEST-UUID: 00112233-4455-6677-8899-aabbccddeeff'' @ CRLF
            @ ''ACTION-ID: 1'' @ CRLF
            @ CRLF)"
    by (simp add: NewRequestActionPacket_def NewResponseActionPacket_def u f)
  from L2 have c2: "RequestActionPacket_String exampleEncoder (NewRequestActionPacket exampleUUID 255 (Some ()))
     = Inr (''DYLLABLE-ACTION-REQUEST'' @ CRLF
            @ ''REQUEST-UUID: 00112233-4455-6677-8899-aabbccddeeff'' @ CRLF
            @ ''ACTION-ID: 255'' @ CRLF
            @ CRLF
            @ ''{}'' @ CRLF
            @ CRLF)"
    by (simp add: NewRequestActionPacket_def NewResponseActionPacket_def exampleEncoder_def u f)
  from L1 have c3: "ResponseActionPacket_String exampleEncoder (NewResponseActionPacket exampleUUID True None)
     = Inr (''DYLLABLE-ACTION-RESPONSE'' @ CRLF
            @ ''REQUEST-UUID: 00112233-4455-6677-8899-aabbccddeeff'' @ CRLF
            @ ''APPROVED: True'' @ CRLF
            @ CRLF)"
    by (simp add: NewRequestActionPacket_def NewResponseActionPacket_def u f)
  from L2 have c4: "ResponseActionPacket_String exampleEncoder (NewResponseActionPacket exampleUUID False (Some ()))
     = Inr (''DYLLABLE-ACTION-RESPONSE'' @ CRLF
            @ ''REQUEST-UUID: 00112233-4455-6677-8899-aabbccddeeff'' @ CRLF
            @ ''APPROVED: False'' @ CRLF
            @ CRLF
            @ ''{}'' @ CRLF
            @ CRLF)"
    by (simp add: NewRequestActionPacket_def NewResponseActionPacket_def exampleEncoder_def u f)
  from L3 have c5: \<open>RequestActionPacket_String (\<lambda>m :: unit. Inr ''{"key":"value","key2":10,"key3":true,"key4":15.7}'')
        (NewRequestActionPacket exampleUUID 1 (Some ()))
     = Inr (''DYLLABLE-ACTION-REQUEST'' @ CRLF
            @ ''REQUEST-UUID: 00112233-4455-6677-8899-aabbccddeeff'' @ CRLF
            @ ''ACTION-ID: 1'' @ CRLF
            @ CRLF
            @ ''{"key":"value","key2":10,"key3":true,"key4":15.7}'' @ CRLF
            @ CRLF)\<close>
    by (simp add: u)
  from c1 c2 c3 c4 c5 show ?thesis by simp
qed

text \<open>
  The discovery packets of the repository's tests: the request for \<open>127.0.0.1:8400\<close>
  is serialized as the tests expect and parsed back to the same fields. An IPv6
  address is written without brackets, and the parser then rejects the \<open>HOST\<close> header.
\<close>

lemma discovery_packet_examples:
  "DiscoveryPacket_Bytes (NewRequestDiscoveryPacket (IPv4 127 0 0 1) 8400)
     = Inr (''DYLLABLE-DISCOVERY'' @ CRLF @ ''TYPE: DISCOVERY'' @ CRLF
            @ ''HOST: 127.0.0.1:8400'' @ CRLF @ CRLF)"
  "ParsePacket dec (''DYLLABLE-DISCOVERY'' @ CRLF @ ''TYPE: DISCOVERY'' @ CRLF
            @ ''HOST: 127.0.0.1:8400'' @ CRLF @ CRLF)
     = (Some (Discovery (NewRequestDiscoveryPacket (IPv4 127 0 0 1) 8400)), None, [])"
  "DiscoveryPacket_Bytes (NewRequestDiscoveryPacket [0, 0, 0, 0, 0, 0, 0, 0, 0, 0, 0, 0, 0, 0, 0, 1] 8400)
     = Inr (''DYLLABLE-DISCOVERY'' @ CRLF @ ''TYPE: DISCOVERY'' @ CRLF
            @ ''HOST: ::1:8400'' @ CRLF @ CRLF)"
  "ParsePacket dec (''DYLLABLE-DISCOVERY'' @ CRLF @ ''TYPE: DISCOVERY'' @ CRLF
            @ ''HOST: ::1:8400'' @ CRLF @ CRLF)
     = (None, Some (ErrorString ''malformed packet: invalid ip/port pair''), [])"
  by (simp_all add: ip_defs lib_defs codec_defs const_defs)

text \<open>
  A request with no parameters is parsed back to the same fields.
\<close>

lemma request_packet_example:
  "RequestActionPacket_Bytes enc (NewRequestActionPacket exampleUUID 10 None)
     = Inr (''DYLLABLE-ACTION-REQUEST'' @ CRLF
            @ ''REQUEST-UUID: 00112233-4455-6677-8899-aabbccddeeff'' @ CRLF
            @ ''ACTION-ID: 10'' @ CRLF @ CRLF)"
  "ParsePacket dec (''DYLLABLE-ACTION-REQUEST'' @ CRLF
            @ ''REQUEST-UUID: 00112233-4455-6677-8899-aabbccddeeff'' @ CRLF
            @ ''ACTION-ID: 10'' @ CRLF @ CRLF)
     = (Some (RequestAction (NewRequestActionPacket exampleUUID 10 None)), None, [])"
  by (simp_all add: lib_defs codec_defs const_defs)

text \<open>
  Claim C1, at a \<open>ResponseActionPacket\<close>. For every identifier and either value of the
  approved flag, the packet with no content is serialized without error, and parsing
  the bytes returns no packet (and no error): the fields are not reproduced.
\<close>

theorem response_roundtrip_fails:
  "ResponseActionPacket_Bytes enc (NewResponseActionPacket u approved None)
     = Inr (''DYLLABLE-ACTION-RESPONSE'' @ CRLF
            @ ''REQUEST-UUID: '' @ UUID_String u @ CRLF
            @ ''APPROVED: '' @ (if approved then ''True'' else ''False'') @ CRLF
            @ CRLF)
   \<and> ParsePacket dec (''DYLLABLE-ACTION-RESPONSE'' @ CRLF
            @ ''REQUEST-UUID: '' @ UUID_String u @ CRLF
            @ ''APPROVED: '' @ (if approved then ''True'' else ''False'') @ CRLF
            @ CRLF)
     = (None, None, ''REQUEST-UUID: '' @ UUID_String u @ CRLF
            @ ''APPROVED: '' @ (if approved then ''True'' else ''False'') @ CRLF
            @ CRLF)"
  by (simp add: ResponseActionPacket_Bytes_def ResponseActionPacket_String_def NewResponseActionPacket_def
      json_Marshal_def ParsePacket_def readUntil_def const_defs TrimRight_def)

text \<open>
  Claim C8. The approved flag is serialized as \<open>True\<close> and as \<open>False\<close>. On parsing, a
  \<open>DYLLABLE-ACTION-RESPONSE\<close> packet whose \<open>APPROVED\<close> value is \<open>true\<close> is not rejected:
  the error returned is nil (and so is the packet).
\<close>

theorem approved_token:
  "ResponseActionPacket_String enc (NewResponseActionPacket u True None)
     = Inr (''DYLLABLE-ACTION-RESPONSE'' @ CRLF @ ''REQUEST-UUID: '' @ UUID_String u @ CRLF
            @ ''APPROVED: True'' @ CRLF @ CRLF)
   \<and> ResponseActionPacket_String enc (NewResponseActionPacket u False None)
     = Inr (''DYLLABLE-ACTION-RESPONSE'' @ CRLF @ ''REQUEST-UUID: '' @ UUID_String u @ CRLF
            @ ''APPROVED: False'' @ CRLF @ CRLF)
   \<and> ParsePacket dec (''DYLLABLE-ACTION-RESPONSE'' @ CRLF
        @ ''REQUEST-UUID: 00112233-4455-6677-8899-aabbccddeeff'' @ CRLF
        @ ''APPROVED: true'' @ CRLF @ CRLF)
     = (None, None, ''REQUEST-UUID: 00112233-4455-6677-8899-aabbccddeeff'' @ CRLF
        @ ''APPROVED: true'' @ CRLF @ CRLF)"
  by (simp add: ResponseActionPacket_String_def NewResponseActionPacket_def
      json_Marshal_def ParsePacket_def readUntil_def const_defs TrimRight_def)

end
